theory Spec2Isabelle
  imports Complex_Main
begin

section \<open>The CORS proxy of \<open>proxy-server/scripts/proxy.py\<close>\<close>

text \<open>
  A shallow embedding of the request handler \<open>CORSProxyHandler\<close>.

  Text that comes from the HTTP parser (header names and values, the request path) is a
  Python \<open>str\<close> decoded from ISO-8859-1, one character per byte: it is a \<open>string\<close>
  here, a \<open>char\<close> being the code point. Raw bytes are a \<open>string\<close> too (\<open>bytes\<close>).
  The configured user name and password and the decoded credentials are \<open>str\<close> values
  of arbitrary code points; they are represented by their UTF-8 encoding, which is the
  byte string \<open>base64.b64decode\<close> returned whenever the strict \<open>decode('utf-8')\<close>
  succeeds, so that equality of the \<open>str\<close> values is equality of the byte strings.
\<close>

type_synonym bytes = string

type_synonym headers = "(string \<times> string) list"

subsection \<open>Python string operations\<close>

text \<open>
  \<open>str.lower\<close> on code points below 256: \<open>A\<close>..\<open>Z\<close> and the letters
  \<open>0xC0\<close>..\<open>0xDE\<close> (without the sign \<open>0xD7\<close>) move up by 32.
\<close>

definition lower_char :: "char \<Rightarrow> char" where
  "lower_char c =
     (let n = of_char c :: nat
      in if (65 \<le> n \<and> n \<le> 90) \<or> (192 \<le> n \<and> n \<le> 222 \<and> n \<noteq> 215)
         then char_of (n + 32) else c)"

definition lower :: "string \<Rightarrow> string" where
  "lower s = map lower_char s"

text \<open>
  \<open>str.capitalize\<close>: the first character in upper case, the rest in lower case. It is
  applied to header names only, which the parser restricts to printable ASCII, so the
  upper case of \<open>a\<close>..\<open>z\<close> is all that is needed.
\<close>

definition upper_char :: "char \<Rightarrow> char" where
  "upper_char c =
     (let n = of_char c :: nat
      in if 97 \<le> n \<and> n \<le> 122 then char_of (n - 32) else c)"

definition capitalize :: "string \<Rightarrow> string" where
  "capitalize s = (case s of [] \<Rightarrow> [] | c # cs \<Rightarrow> upper_char c # map lower_char cs)"

text \<open>Truth value of \<open>None\<close> or a \<open>str\<close>: \<open>None\<close> and the empty string are false.\<close>

definition truthy :: "string option \<Rightarrow> bool" where
  "truthy x = (case x of None \<Rightarrow> False | Some s \<Rightarrow> s \<noteq> [])"

text \<open>\<open>a or b\<close> on such values.\<close>

definition py_or :: "string option \<Rightarrow> string option \<Rightarrow> string option" where
  "py_or a b = (if truthy a then a else b)"

text \<open>
  \<open>s.split(sep, 1)\<close> unpacked into two names: the parts around the first separator,
  and a \<open>ValueError\<close> (here \<open>None\<close>) when there is no separator.
\<close>

fun split_once :: "char \<Rightarrow> string \<Rightarrow> (string \<times> string) option" where
  "split_once sep [] = None"
| "split_once sep (c # cs) =
     (if c = sep then Some ([], cs)
      else (case split_once sep cs of
              None \<Rightarrow> None
            | Some (a, b) \<Rightarrow> Some (c # a, b)))"

subsection \<open>The header multimap of the inbound request\<close>

text \<open>
  \<open>self.headers\<close> is an \<open>email.message.Message\<close>: the header lines in order, with
  duplicates. \<open>get\<close> compares names without case and returns the first match;
  \<open>items\<close> is the list itself.
\<close>

fun get :: "headers \<Rightarrow> string \<Rightarrow> string option" where
  "get [] name = None"
| "get ((k, v) # hs) name = (if lower k = lower name then Some v else get hs name)"

subsection \<open>The header dictionary of the outbound request\<close>

text \<open>
  \<open>urllib.request.Request.add_header(key, val)\<close> is
  \<open>self.headers[key.capitalize()] = val\<close>, an assignment in a \<open>dict\<close>: a key that
  is already there keeps its place and takes the new value, a new key goes last.
\<close>

fun dict_set :: "headers \<Rightarrow> string \<Rightarrow> string \<Rightarrow> headers" where
  "dict_set [] k v = [(k, v)]"
| "dict_set ((k', v') # d) k v =
     (if k' = k then (k, v) # d else (k', v') # dict_set d k v)"

definition add_header :: "headers \<Rightarrow> string \<Rightarrow> string \<Rightarrow> headers" where
  "add_header d key val = dict_set d (capitalize key) val"

definition skip_headers :: "string list" where
  "skip_headers =
     [''host'', ''connection'', ''proxy-authorization'',
      ''x-target-url'', ''origin'', ''referer'']"

text \<open>The loop over \<open>self.headers.items()\<close>, with the dictionary built so far.\<close>

fun copy_headers_from :: "headers \<Rightarrow> headers \<Rightarrow> headers" where
  "copy_headers_from d [] = d"
| "copy_headers_from d ((header, val) # hs) =
     copy_headers_from
       (if lower header \<notin> set skip_headers then add_header d header val else d) hs"

definition copy_headers :: "headers \<Rightarrow> headers" where
  "copy_headers hs = copy_headers_from [] hs"

subsection \<open>Configuration\<close>

text \<open>
  \<open>config.cors_origin\<close> is compared with \<open>'*'\<close>, then tested for being a list, and is
  an origin string otherwise.
\<close>

datatype cors_origin = OriginStr string | OriginList "string list"

record ProxyConfig =
  port :: int
  host :: string
  cors_origin :: cors_origin
  username :: "bytes option"
  password :: "bytes option"
  ssl_verification :: string
  verbose :: bool

subsection \<open>Base64 and UTF-8, as \<open>check_auth\<close> uses them\<close>

text \<open>
  \<open>base64.b64decode(s)\<close> of a \<open>str\<close>: the string is encoded to ASCII (a
  \<open>ValueError\<close> for a character above 127) and handed to \<open>binascii.a2b_base64\<close>
  with validation off. That loop skips every character outside the alphabet, counts
  pad characters once two data characters of a quad are in, stops at a complete pad,
  and fails when the input ends inside a quad.
\<close>

definition b64_alphabet :: string where
  "b64_alphabet = ''ABCDEFGHIJKLMNOPQRSTUVWXYZabcdefghijklmnopqrstuvwxyz0123456789+/''"

fun index_of :: "char \<Rightarrow> string \<Rightarrow> nat option" where
  "index_of c [] = None"
| "index_of c (x # xs) = (if x = c then Some 0 else map_option Suc (index_of c xs))"

definition table_a2b_base64 :: "char \<Rightarrow> nat option" where
  "table_a2b_base64 c = index_of c b64_alphabet"

text \<open>
  The state of the loop: the position \<open>quad_pos\<close> in the quad, the bits \<open>leftchar\<close>
  left over, the count \<open>pads\<close>, and the bytes written so far.
\<close>

fun a2b_base64 :: "nat \<Rightarrow> nat \<Rightarrow> nat \<Rightarrow> bytes \<Rightarrow> string \<Rightarrow> bytes option" where
  "a2b_base64 quad_pos leftchar pads out [] =
     (if quad_pos = 0 then Some out else None)"
| "a2b_base64 quad_pos leftchar pads out (c # cs) =
     (if c = CHR ''='' then
        (if quad_pos \<ge> 2 \<and> quad_pos + (pads + 1) \<ge> 4 then Some out
         else a2b_base64 quad_pos leftchar (if quad_pos \<ge> 2 then pads + 1 else pads) out cs)
      else
        (case table_a2b_base64 c of
           None \<Rightarrow> a2b_base64 quad_pos leftchar pads out cs
         | Some this_ch \<Rightarrow>
             (if quad_pos = 0 then a2b_base64 1 this_ch 0 out cs
              else if quad_pos = 1 then
                a2b_base64 2 (this_ch mod 16) 0
                  (out @ [char_of (leftchar * 4 + this_ch div 16)]) cs
              else if quad_pos = 2 then
                a2b_base64 3 (this_ch mod 4) 0
                  (out @ [char_of (leftchar * 16 + this_ch div 4)]) cs
              else
                a2b_base64 0 0 0 (out @ [char_of (leftchar * 64 + this_ch)]) cs)))"

definition b64decode :: "string \<Rightarrow> bytes option" where
  "b64decode s =
     (if \<exists>c \<in> set s. (of_char c :: nat) \<ge> 128 then None
      else a2b_base64 0 0 0 [] s)"

text \<open>
  \<open>bytes.decode('utf-8')\<close> is strict: it raises on a stray continuation byte, an
  overlong form, a surrogate, a code point above \<open>0x10FFFF\<close> and a truncated sequence.
  The decoded \<open>str\<close> is represented by the bytes themselves, so the model is the test
  whether decoding succeeds.
\<close>

definition cont :: "nat \<Rightarrow> bool" where
  "cont b = (128 \<le> b \<and> b \<le> 191)"

fun utf8_ok :: "nat list \<Rightarrow> bool" where
  "utf8_ok [] = True"
| "utf8_ok (b # bs) =
     (if b < 128 then utf8_ok bs
      else if 194 \<le> b \<and> b \<le> 223 then
        (case bs of c1 # r \<Rightarrow> cont c1 \<and> utf8_ok r | _ \<Rightarrow> False)
      else if 224 \<le> b \<and> b \<le> 239 then
        (case bs of
           c1 # c2 # r \<Rightarrow>
             cont c1 \<and> cont c2 \<and> (b = 224 \<longrightarrow> 160 \<le> c1) \<and> (b = 237 \<longrightarrow> c1 \<le> 159)
             \<and> utf8_ok r
         | _ \<Rightarrow> False)
      else if 240 \<le> b \<and> b \<le> 244 then
        (case bs of
           c1 # c2 # c3 # r \<Rightarrow>
             cont c1 \<and> cont c2 \<and> cont c3 \<and> (b = 240 \<longrightarrow> 144 \<le> c1)
             \<and> (b = 244 \<longrightarrow> c1 \<le> 143) \<and> utf8_ok r
         | _ \<Rightarrow> False)
      else False)"

definition utf8_valid :: "bytes \<Rightarrow> bool" where
  "utf8_valid bs = utf8_ok (map of_char bs)"

subsection \<open>\<open>check_auth\<close>\<close>

text \<open>
  \<open>self.headers.get('Proxy-Authorization') or self.headers.get('Authorization')\<close>
\<close>

definition auth_header :: "headers \<Rightarrow> string option" where
  "auth_header hs = py_or (get hs ''Proxy-Authorization'') (get hs ''Authorization'')"

text \<open>
  The body of the \<open>try\<close>: every exception in it (the unpacking of a split without a
  separator, \<open>b64decode\<close>, \<open>decode\<close>) is caught by the bare \<open>except\<close>, which returns
  \<open>False\<close>.
\<close>

definition check_credentials :: "ProxyConfig \<Rightarrow> string \<Rightarrow> bool" where
  "check_credentials cfg hdr =
     (case split_once CHR '' '' hdr of
        None \<Rightarrow> False
      | Some (auth_type, credentials) \<Rightarrow>
          if lower auth_type \<noteq> ''basic'' then False
          else (case b64decode credentials of
                  None \<Rightarrow> False
                | Some raw \<Rightarrow>
                    if \<not> utf8_valid raw then False
                    else (case split_once CHR '':'' raw of
                            None \<Rightarrow> False
                          | Some (u, p) \<Rightarrow>
                              Some u = username cfg \<and> Some p = password cfg)))"

definition check_auth :: "ProxyConfig \<Rightarrow> headers \<Rightarrow> bool" where
  "check_auth cfg hs =
     (if \<not> truthy (username cfg) \<or> \<not> truthy (password cfg) then True
      else (case auth_header hs of
              None \<Rightarrow> False
            | Some hdr \<Rightarrow> if hdr = [] then False else check_credentials cfg hdr))"

subsection \<open>What the handler writes and whom it calls\<close>

text \<open>
  A body written by the handler is either raw bytes or \<open>json.dumps(v).encode()\<close> of a
  dictionary, kept as the JSON value. The \<open>uptime\<close> is a difference of two clock
  readings; the rounding of the floating-point subtraction is not modelled.
\<close>

datatype json = JString string | JNumber real | JObject "(string \<times> json) list"

datatype payload = Raw bytes | Json json

text \<open>
  The calls on the client connection, in order: \<open>send_response_only\<close> (the status
  line), \<open>send_header\<close>, \<open>end_headers\<close>, \<open>wfile.write\<close>.
\<close>

datatype event = Status nat | Header string string | EndHeaders | Write payload

fun is_Status :: "event \<Rightarrow> bool" where
  "is_Status (Status c) = True"
| "is_Status e = False"

fun is_EndHeaders :: "event \<Rightarrow> bool" where
  "is_EndHeaders EndHeaders = True"
| "is_EndHeaders e = False"

text \<open>
  The body of the upstream response as the handler sees it through \<open>read\<close>: segments
  of bytes as they arrive, ended by the end of the body or by an exception of the
  connection (its \<open>str\<close>).
\<close>

datatype stream = Eof | Broken string | Seg bytes stream

datatype verify_mode = CERT_NONE | CERT_REQUIRED

record ssl_context =
  check_hostname :: bool
  verify_mode :: verify_mode

text \<open>The \<open>urllib.request.Request\<close> that the handler builds.\<close>

record Request =
  full_url :: string
  req_method :: string
  req_headers :: headers
  data :: "bytes option"

text \<open>
  \<open>urlopen\<close> returns a response, raises \<open>HTTPError\<close> (with code, headers and body),
  or raises another exception, of which the handler uses the \<open>str\<close>.
\<close>

datatype url_result =
    Response nat headers stream
  | HTTPError nat headers stream
  | Raises string

text \<open>
  The inbound request: \<open>self.command\<close>, \<open>self.path\<close>, \<open>self.headers\<close>, and the
  bytes that \<open>self.rfile\<close> holds after the header block.
\<close>

record request =
  command :: string
  path :: string
  headers :: headers
  rfile :: bytes

text \<open>
  What the handler takes from outside the repository and this model does not compute:
  the clock and \<open>start_time\<close>; the \<open>Server\<close> and \<open>Date\<close> values that
  \<open>send_response\<close> adds; \<open>unquote\<close> on a string that has a \<open>%\<close> (the escapes are
  decoded as UTF-8 with replacement; a result with a code point above 255 has no image
  in \<open>string\<close>); the \<open>ValueError\<close> that \<open>urlsplit\<close> raises for the network
  location of a URL (unbalanced brackets, an invalid bracketed host, characters that
  normalise to separators); \<open>repr\<close> of a \<open>str\<close>; \<open>int(s)\<close> with its \<open>ValueError\<close>; and
  the network behind \<open>urlopen\<close>.
\<close>

record world =
  start_time :: real
  time_now :: real
  version_string :: string
  date_time_string :: string
  unquote_escapes :: "string \<Rightarrow> string"
  urlsplit_error :: "string \<Rightarrow> string option"
  py_repr :: "string \<Rightarrow> string"
  parse_int :: "string \<Rightarrow> string + int"
  urlopen :: "Request \<Rightarrow> ssl_context option \<Rightarrow> url_result"

text \<open>
  The result of handling one request: the calls on the client connection, the calls of
  \<open>urlopen\<close>, and the exception that left the handler, if one did.
\<close>

record result =
  sent :: "event list"
  calls :: "(Request \<times> ssl_context option) list"
  raised :: "string option"

subsection \<open>Writing responses\<close>

text \<open>\<open>send_response(code)\<close>: the status line, then \<open>Server\<close> and \<open>Date\<close>.\<close>

definition send_response :: "world \<Rightarrow> nat \<Rightarrow> event list" where
  "send_response w code =
     [Status code, Header ''Server'' (version_string w), Header ''Date'' (date_time_string w)]"

definition send_cors_headers :: "ProxyConfig \<Rightarrow> headers \<Rightarrow> event list" where
  "send_cors_headers cfg hs =
     (let origin = (case get hs ''Origin'' of None \<Rightarrow> ''*'' | Some v \<Rightarrow> v)
      in (case cors_origin cfg of
            OriginStr s \<Rightarrow>
              if s = ''*'' then [Header ''Access-Control-Allow-Origin'' origin]
              else [Header ''Access-Control-Allow-Origin'' s]
          | OriginList l \<Rightarrow>
              if origin \<in> set l then [Header ''Access-Control-Allow-Origin'' origin] else [])
         @ [Header ''Access-Control-Allow-Methods''
              ''GET, POST, PUT, DELETE, PATCH, OPTIONS, HEAD'',
            Header ''Access-Control-Allow-Headers'' ''*'',
            Header ''Access-Control-Allow-Credentials'' ''true'',
            Header ''Access-Control-Max-Age'' ''86400''])"

definition health_response :: "ProxyConfig \<Rightarrow> world \<Rightarrow> headers \<Rightarrow> event list" where
  "health_response cfg w hs =
     send_response w 200 @ [Header ''Content-Type'' ''application/json'']
     @ send_cors_headers cfg hs
     @ [EndHeaders,
        Write (Json (JObject
          [(''status'', JString ''ok''),
           (''version'', JString ''1.0.0''),
           (''uptime'', JNumber (time_now w - start_time w))]))]"

definition unauthorized_response :: "ProxyConfig \<Rightarrow> world \<Rightarrow> headers \<Rightarrow> event list" where
  "unauthorized_response cfg w hs =
     send_response w 401 @ [Header ''WWW-Authenticate'' ''Basic realm=\"Proxy\"'']
     @ send_cors_headers cfg hs
     @ [EndHeaders, Write (Raw ''Unauthorized'')]"

definition missing_target_response :: "ProxyConfig \<Rightarrow> world \<Rightarrow> headers \<Rightarrow> event list" where
  "missing_target_response cfg w hs =
     send_response w 400 @ send_cors_headers cfg hs
     @ [EndHeaders,
        Write (Raw ''Missing target URL. Use X-Target-URL header or ?url= parameter'')]"

text \<open>The handler \<open>except Exception as e\<close>, with \<open>str(e)\<close>.\<close>

definition proxy_error :: "ProxyConfig \<Rightarrow> world \<Rightarrow> headers \<Rightarrow> string \<Rightarrow> event list" where
  "proxy_error cfg w hs msg =
     send_response w 500 @ [Header ''Content-Type'' ''application/json'']
     @ send_cors_headers cfg hs
     @ [EndHeaders,
        Write (Json (JObject
          [(''error'', JString ''Proxy error''), (''message'', JString msg)]))]"

text \<open>
  The status line and header block of a relayed response: the upstream code, the
  upstream headers without \<open>connection\<close> and \<open>transfer-encoding\<close>, the CORS headers.
\<close>

definition relay_headers :: "headers \<Rightarrow> event list" where
  "relay_headers hs =
     map (\<lambda>(header, val). Header header val)
       (filter (\<lambda>(header, val). lower header \<notin> set [''connection'', ''transfer-encoding'']) hs)"

definition relay_head ::
  "ProxyConfig \<Rightarrow> world \<Rightarrow> headers \<Rightarrow> nat \<Rightarrow> headers \<Rightarrow> event list" where
  "relay_head cfg w hs code up_hs =
     send_response w code @ relay_headers up_hs @ send_cors_headers cfg hs @ [EndHeaders]"

subsection \<open>Reading the upstream body\<close>

definition CHUNK :: nat where
  "CHUNK = 8192"

text \<open>
  \<open>response.read(n)\<close>: at most \<open>n\<close> bytes of what has arrived, the empty bytes at the
  end of the body only, or the exception of the connection.
\<close>

fun stream_read :: "nat \<Rightarrow> stream \<Rightarrow> (string + bytes) \<times> stream" where
  "stream_read n Eof = (Inr [], Eof)"
| "stream_read n (Broken e) = (Inl e, Broken e)"
| "stream_read n (Seg bs s) =
     (if bs = [] then stream_read n s
      else (Inr (take n bs), if drop n bs = [] then s else Seg (drop n bs) s))"

fun weight :: "stream \<Rightarrow> nat" where
  "weight Eof = 0"
| "weight (Broken e) = 0"
| "weight (Seg bs s) = Suc (length bs + weight s)"

lemma stream_read_weight:
  "stream_read n s = (Inr chunk, s') \<Longrightarrow> chunk \<noteq> [] \<Longrightarrow> weight s' < weight s"
proof (induction s)
  case (Seg bs s)
  show ?case
  proof (cases "bs = []")
    case True
    with Seg show ?thesis by fastforce
  next
    case False
    with Seg.prems have n: "n \<noteq> 0" and s': "s' = (if drop n bs = [] then s else Seg (drop n bs) s)"
      by auto
    with False show ?thesis by auto
  qed
qed auto

text \<open>
  The loop \<open>while True: chunk = response.read(8192); if not chunk: break;
  self.wfile.write(chunk)\<close>, as the sequence of its reads from the target and its
  writes to the client, and the exception that ended the loop, if any. The only body
  bytes the loop holds are those of \<open>chunk\<close>.
\<close>

datatype step = ReadChunk bytes | WriteChunk bytes

function copy_loop :: "stream \<Rightarrow> step list \<times> string option" where
  "copy_loop s =
     (case stream_read CHUNK s of
        (Inl e, s') \<Rightarrow> ([], Some e)
      | (Inr chunk, s') \<Rightarrow>
          if chunk = [] then ([ReadChunk []], None)
          else (case copy_loop s' of
                  (steps, r) \<Rightarrow> (ReadChunk chunk # WriteChunk chunk # steps, r)))"
  by pat_completeness auto
termination
  by (relation "measure weight") (auto dest: stream_read_weight [OF sym])

text \<open>What the loop writes to the client.\<close>

fun writes_of :: "step list \<Rightarrow> event list" where
  "writes_of [] = []"
| "writes_of (ReadChunk c # steps) = writes_of steps"
| "writes_of (WriteChunk c # steps) = Write (Raw c) # writes_of steps"

definition copy_body :: "stream \<Rightarrow> event list \<times> string option" where
  "copy_body s = (case copy_loop s of (steps, r) \<Rightarrow> (writes_of steps, r))"

text \<open>\<open>e.read()\<close>: the whole body, or the exception of the connection.\<close>

fun read_all :: "stream \<Rightarrow> string + bytes" where
  "read_all Eof = Inr []"
| "read_all (Broken e) = Inl e"
| "read_all (Seg bs s) = (case read_all s of Inl e \<Rightarrow> Inl e | Inr r \<Rightarrow> Inr (bs @ r))"

text \<open>The bytes the target sent, and whether the body arrived whole.\<close>

fun stream_bytes :: "stream \<Rightarrow> bytes" where
  "stream_bytes Eof = []"
| "stream_bytes (Broken e) = []"
| "stream_bytes (Seg bs s) = bs @ stream_bytes s"

fun intact :: "stream \<Rightarrow> bool" where
  "intact Eof = True"
| "intact (Broken e) = False"
| "intact (Seg bs s) = intact s"

declare copy_loop.simps [simp del]

subsection \<open>\<open>urllib.parse\<close> and \<open>urllib.request.Request\<close>, as the handler uses them\<close>

text \<open>\<open>str.isspace\<close> and \<open>str.strip()\<close> on code points below 256.\<close>

definition isspace :: "char \<Rightarrow> bool" where
  "isspace c = ((of_char c :: nat) \<in> set [9, 10, 11, 12, 13, 28, 29, 30, 31, 32, 133, 160])"

definition strip :: "string \<Rightarrow> string" where
  "strip s = rev (dropWhile isspace (rev (dropWhile isspace s)))"

text \<open>\<open>s.split(sep)\<close>: all the parts, the empty ones too.\<close>

fun split_all :: "char \<Rightarrow> string \<Rightarrow> string list" where
  "split_all sep [] = [[]]"
| "split_all sep (c # cs) =
     (if c = sep then [] # split_all sep cs
      else (case split_all sep cs of
              [] \<Rightarrow> [[c]]
            | x # xs \<Rightarrow> (c # x) # xs))"

text \<open>
  \<open>urlparse(url).query\<close>. \<open>urlsplit\<close> strips leading control characters and spaces,
  removes tab, carriage return and line feed, takes off a scheme and a network
  location (neither holds a \<open>?\<close> or a \<open>#\<close>), cuts the fragment at the first \<open>#\<close> and
  the query at the first \<open>?\<close> before it.
\<close>

definition urlparse_query :: "string \<Rightarrow> string" where
  "urlparse_query url =
     (let url = dropWhile (\<lambda>c. (of_char c :: nat) \<le> 32) url;
          url = filter (\<lambda>c. (of_char c :: nat) \<notin> set [9, 13, 10]) url;
          url = takeWhile (\<lambda>c. c \<noteq> CHR ''#'') url
      in (case split_once CHR ''?'' url of
            None \<Rightarrow> []
          | Some (p, query) \<Rightarrow> query))"

text \<open>
  \<open>unquote\<close> returns a string without \<open>%\<close> as it is; \<open>unquote_plus\<close> first turns
  every \<open>+\<close> into a space.
\<close>

definition unquote :: "world \<Rightarrow> string \<Rightarrow> string" where
  "unquote w s = (if CHR ''%'' \<notin> set s then s else unquote_escapes w s)"

definition unquote_plus :: "world \<Rightarrow> string \<Rightarrow> string" where
  "unquote_plus w s = unquote w (map (\<lambda>c. if c = CHR ''+'' then CHR '' '' else c) s)"

text \<open>
  \<open>parse_qsl(qs)\<close> with its defaults: the fields between \<open>&\<close>, each cut at its
  first \<open>=\<close>; an empty field and a field with a blank value are dropped.
\<close>

definition parse_qsl :: "world \<Rightarrow> string \<Rightarrow> (string \<times> string) list" where
  "parse_qsl w qs =
     (if qs = [] then []
      else concat (map (\<lambda>name_value.
             if name_value = [] then []
             else (case (case split_once CHR ''='' name_value of
                           None \<Rightarrow> (name_value, [])
                         | Some (name, val) \<Rightarrow> (name, val)) of
                     (name, val) \<Rightarrow>
                       if val = [] then []
                       else [(unquote_plus w name, unquote_plus w val)]))
           (split_all CHR ''&'' qs)))"

text \<open>\<open>parse_qs\<close>: the dictionary from each name to the list of its values.\<close>

fun dict_append ::
  "(string \<times> string list) list \<Rightarrow> string \<Rightarrow> string \<Rightarrow> (string \<times> string list) list" where
  "dict_append [] name val = [(name, [val])]"
| "dict_append ((k, vs) # d) name val =
     (if k = name then (k, vs @ [val]) # d else (k, vs) # dict_append d name val)"

definition parse_qs :: "world \<Rightarrow> string \<Rightarrow> (string \<times> string list) list" where
  "parse_qs w qs = foldl (\<lambda>d (name, val). dict_append d name val) [] (parse_qsl w qs)"

text \<open>
  \<open>Request(url)\<close> sets \<open>full_url\<close>: the URL is unwrapped, cut at its last \<open>#\<close>, and
  must begin with a scheme (characters other than \<open>/\<close> and \<open>:\<close>, then \<open>:\<close>), or a
  \<open>ValueError\<close> is raised; then \<open>request_host\<close> parses it.
\<close>

definition unwrap :: "string \<Rightarrow> string" where
  "unwrap url =
     (let url = strip url;
          url = (if take 1 url = ''<'' \<and> take 1 (rev url) = ''>''
                 then strip (butlast (tl url)) else url);
          url = (if take 4 url = ''URL:'' then strip (drop 4 url) else url)
      in url)"

definition splittag :: "string \<Rightarrow> string \<times> string option" where
  "splittag url =
     (case split_once CHR ''#'' (rev url) of
        None \<Rightarrow> (url, None)
      | Some (tag, p) \<Rightarrow> (rev p, Some (rev tag)))"

definition splittype_matches :: "string \<Rightarrow> bool" where
  "splittype_matches url =
     (takeWhile (\<lambda>c. c \<noteq> CHR ''/'' \<and> c \<noteq> CHR '':'') url \<noteq> [] \<and>
      take 1 (dropWhile (\<lambda>c. c \<noteq> CHR ''/'' \<and> c \<noteq> CHR '':'') url) = '':'')"

text \<open>The property \<open>full_url\<close> of the new object: the fragment is put back unless empty.\<close>

definition request_url :: "string \<Rightarrow> string" where
  "request_url url =
     (case splittag (unwrap url) of
        (p, fragment) \<Rightarrow> if truthy fragment then p @ ''#'' @ the fragment else p)"

text \<open>The \<open>ValueError\<close> of \<open>Request(url)\<close>, if it raises.\<close>

definition request_init :: "world \<Rightarrow> string \<Rightarrow> string option" where
  "request_init w url =
     (if \<not> splittype_matches (fst (splittag (unwrap url)))
      then Some (''unknown url type: '' @ py_repr w (request_url url))
      else urlsplit_error w (request_url url))"

text \<open>
  \<open>req.data = body\<close>: the setter stores a value that differs from the old one and
  then removes the header \<open>Content-length\<close> from the dictionary.
\<close>

definition has_header :: "Request \<Rightarrow> string \<Rightarrow> bool" where
  "has_header req name = (name \<in> fst ` set (req_headers req))"

definition remove_header :: "Request \<Rightarrow> string \<Rightarrow> Request" where
  "remove_header req name =
     req\<lparr>req_headers := filter (\<lambda>(k, v). k \<noteq> name) (req_headers req)\<rparr>"

definition set_data :: "Request \<Rightarrow> bytes option \<Rightarrow> Request" where
  "set_data req d =
     (if d \<noteq> data req then
        (let req = req\<lparr>data := d\<rparr>
         in if has_header req ''Content-length''
            then remove_header req ''Content-length'' else req)
      else req)"

subsection \<open>\<open>handle_request\<close>\<close>

text \<open>
  \<open>parse_qs(urlparse(self.path).query)\<close>, or the \<open>ValueError\<close> of \<open>urlsplit\<close>.
\<close>

definition query_params :: "world \<Rightarrow> string \<Rightarrow> string + (string \<times> string list) list" where
  "query_params w p =
     (case urlsplit_error w p of
        Some e \<Rightarrow> Inl e
      | None \<Rightarrow> Inr (parse_qs w (urlparse_query p)))"

text \<open>
  \<open>query_params.get('url', [None])[0]\<close>: the first value of the parameter, \<open>None\<close>
  without the parameter, and an \<open>IndexError\<close> on an empty list of values.
\<close>

definition query_url :: "(string \<times> string list) list \<Rightarrow> string + string option" where
  "query_url d =
     (case map_of d ''url'' of
        None \<Rightarrow> Inr None
      | Some [] \<Rightarrow> Inl ''list index out of range''
      | Some (v # vs) \<Rightarrow> Inr (Some v))"

text \<open>
  \<open>target_url = self.headers.get('X-Target-URL')\<close>, replaced by the query parameter
  \<open>if not target_url\<close>. An exception here is outside the \<open>try\<close>.
\<close>

definition target_url :: "world \<Rightarrow> request \<Rightarrow> string + string option" where
  "target_url w rq =
     (let t = get (headers rq) ''X-Target-URL''
      in if \<not> truthy t then
           (case query_params w (path rq) of
              Inl e \<Rightarrow> Inl e
            | Inr d \<Rightarrow> query_url d)
         else Inr t)"

text \<open>
  \<open>self.rfile.read(n)\<close>: \<open>n\<close> bytes of the request body, or all of it for a negative
  \<open>n\<close>. The client is taken to have sent what it declared, so the read returns.
\<close>

definition rfile_read :: "int \<Rightarrow> bytes \<Rightarrow> bytes" where
  "rfile_read n bs = (if n < 0 then bs else take (nat n) bs)"

text \<open>The body of the outbound request, or the \<open>ValueError\<close> of \<open>int\<close>.\<close>

definition read_body :: "world \<Rightarrow> request \<Rightarrow> string + bytes option" where
  "read_body w rq =
     (let content_length = get (headers rq) ''Content-Length''
      in if truthy content_length then
           (case parse_int w (the content_length) of
              Inl e \<Rightarrow> Inl e
            | Inr n \<Rightarrow> Inr (Some (rfile_read n (rfile rq))))
         else Inr None)"

definition ssl_context_of :: "ProxyConfig \<Rightarrow> ssl_context option" where
  "ssl_context_of cfg =
     (if ssl_verification cfg = ''ignore''
      then Some \<lparr>check_hostname = False, verify_mode = CERT_NONE\<rparr>
      else None)"

text \<open>
  The request after \<open>Request(target_url, method=self.command)\<close>, the loop of
  \<open>add_header\<close>, and \<open>req.data = body\<close> when the inbound request declares a length.
\<close>

definition build_request :: "request \<Rightarrow> string \<Rightarrow> bytes option \<Rightarrow> Request" where
  "build_request rq url body =
     (let req = \<lparr>full_url = request_url url, req_method = command rq,
                 req_headers = copy_headers (headers rq), data = None\<rparr>
      in (case body of None \<Rightarrow> req | Some b \<Rightarrow> set_data req (Some b)))"

text \<open>
  The \<open>try\<close> statement. An exception before \<open>urlopen\<close> returns, other than an
  \<open>HTTPError\<close>, and an exception of \<open>response.read\<close> in the loop all reach
  \<open>except Exception\<close>. An exception of \<open>e.read()\<close> is raised inside the handler of
  \<open>HTTPError\<close> and leaves \<open>handle_request\<close>. Writes to the client are taken to
  succeed.
\<close>

definition relay :: "ProxyConfig \<Rightarrow> world \<Rightarrow> request \<Rightarrow> string \<Rightarrow> result" where
  "relay cfg w rq url =
     (let hs = headers rq in
      case request_init w url of
        Some e \<Rightarrow> \<lparr>sent = proxy_error cfg w hs e, calls = [], raised = None\<rparr>
      | None \<Rightarrow>
          (case read_body w rq of
             Inl e \<Rightarrow> \<lparr>sent = proxy_error cfg w hs e, calls = [], raised = None\<rparr>
           | Inr body \<Rightarrow>
               (let req = build_request rq url body;
                    ctx = ssl_context_of cfg
                in case urlopen w req ctx of
                     Response code up_hs s \<Rightarrow>
                       (case copy_body s of
                          (writes, None) \<Rightarrow>
                            \<lparr>sent = relay_head cfg w hs code up_hs @ writes,
                             calls = [(req, ctx)], raised = None\<rparr>
                        | (writes, Some e) \<Rightarrow>
                            \<lparr>sent = relay_head cfg w hs code up_hs @ writes
                                    @ proxy_error cfg w hs e,
                             calls = [(req, ctx)], raised = None\<rparr>)
                   | HTTPError code up_hs s \<Rightarrow>
                       (case read_all s of
                          Inr b \<Rightarrow>
                            \<lparr>sent = relay_head cfg w hs code up_hs @ [Write (Raw b)],
                             calls = [(req, ctx)], raised = None\<rparr>
                        | Inl e \<Rightarrow>
                            \<lparr>sent = relay_head cfg w hs code up_hs,
                             calls = [(req, ctx)], raised = Some e\<rparr>)
                   | Raises e \<Rightarrow>
                       \<lparr>sent = proxy_error cfg w hs e,
                        calls = [(req, ctx)], raised = None\<rparr>)))"

text \<open>
  \<open>handle_request\<close> serves \<open>GET\<close>, \<open>POST\<close>, \<open>PUT\<close>, \<open>DELETE\<close>, \<open>PATCH\<close> and
  \<open>HEAD\<close>; \<open>OPTIONS\<close> goes to \<open>do_OPTIONS\<close>.
\<close>

definition handle_request :: "ProxyConfig \<Rightarrow> world \<Rightarrow> request \<Rightarrow> result" where
  "handle_request cfg w rq =
     (let hs = headers rq in
      if path rq = ''/health'' then
        \<lparr>sent = health_response cfg w hs, calls = [], raised = None\<rparr>
      else if \<not> check_auth cfg hs then
        \<lparr>sent = unauthorized_response cfg w hs, calls = [], raised = None\<rparr>
      else
        (case target_url w rq of
           Inl e \<Rightarrow> \<lparr>sent = [], calls = [], raised = Some e\<rparr>
         | Inr t \<Rightarrow>
             if \<not> truthy t then
               \<lparr>sent = missing_target_response cfg w hs, calls = [], raised = None\<rparr>
             else relay cfg w rq (the t)))"

definition do_OPTIONS :: "ProxyConfig \<Rightarrow> world \<Rightarrow> request \<Rightarrow> result" where
  "do_OPTIONS cfg w rq =
     \<lparr>sent = send_response w 204 @ send_cors_headers cfg (headers rq) @ [EndHeaders],
      calls = [], raised = None\<rparr>"

subsection \<open>Sample configurations, requests and targets\<close>

definition open_config :: ProxyConfig where
  "open_config =
     \<lparr>port = 9090, host = ''0.0.0.0'', cors_origin = OriginStr ''*'',
      username = None, password = None, ssl_verification = ''default'', verbose = False\<rparr>"

definition alice_config :: ProxyConfig where
  "alice_config = open_config\<lparr>username := Some ''alice'', password := Some ''secret''\<rparr>"

text \<open>\<open>--username alice\<close> without \<open>--password\<close>.\<close>

definition half_config :: ProxyConfig where
  "half_config = open_config\<lparr>username := Some ''alice''\<rparr>"

text \<open>
  A world in which every \<open>urlopen\<close> has the given result, \<open>urlsplit\<close> accepts every
  network location, and \<open>int\<close> reads decimal digits.
\<close>

fun decimal :: "nat \<Rightarrow> string \<Rightarrow> nat option" where
  "decimal acc [] = Some acc"
| "decimal acc (c # cs) =
     (if 48 \<le> (of_char c :: nat) \<and> (of_char c :: nat) \<le> 57
      then decimal (10 * acc + (of_char c - 48)) cs else None)"

definition sample_world :: "url_result \<Rightarrow> world" where
  "sample_world r =
     \<lparr>start_time = 100, time_now = 160,
      version_string = ''BaseHTTP/0.6 Python/3.11.4'',
      date_time_string = ''Mon, 01 Jan 2024 00:00:00 GMT'',
      unquote_escapes = (\<lambda>s. s),
      urlsplit_error = (\<lambda>u. None),
      py_repr = (\<lambda>s. [CHR 39] @ s @ [CHR 39]),
      parse_int = (\<lambda>s. case decimal 0 s of
                         Some n \<Rightarrow> if s = [] then Inl ''invalid literal for int()''
                                   else Inr (int n)
                       | None \<Rightarrow> Inl ''invalid literal for int()''),
      urlopen = (\<lambda>req ctx. r)\<rparr>"

definition sample_request :: "headers \<Rightarrow> request" where
  "sample_request hs = \<lparr>command = ''GET'', path = ''/'', headers = hs, rfile = []\<rparr>"

subsection \<open>Auxiliary notions for the statements\<close>

text \<open>
  The inbound headers outside the skip set, in order, under the names that
  \<open>add_header\<close> gives them.
\<close>

definition forwarded :: "headers \<Rightarrow> headers" where
  "forwarded hs =
     map (\<lambda>(h, v). (capitalize h, v)) (filter (\<lambda>(h, v). lower h \<notin> set skip_headers) hs)"

definition api_request :: request where
  "api_request =
     sample_request
       [(''X-Target-URL'', ''http://example.test/foo''), (''Host'', ''proxy.test''),
        (''X-Api-Key'', ''k1''), (''Accept'', ''text/html''),
        (''Accept'', ''application/json'')]"

definition api_outbound :: Request where
  "api_outbound =
     \<lparr>full_url = ''http://example.test/foo'', req_method = ''GET'',
      req_headers = [(''X-api-key'', ''k1''), (''Accept'', ''application/json'')],
      data = None\<rparr>"

text \<open>\<open>YWxpY2U6c2VjcmV0\<close> is the Base64 form of \<open>alice:secret\<close>.\<close>

definition two_auth_request :: request where
  "two_auth_request =
     sample_request
       [(''X-Target-URL'', ''http://example.test/foo''),
        (''Authorization'', ''Basic YWxpY2U6c2VjcmV0''),
        (''Authorization'', ''Bearer t0'')]"

definition one_auth_request :: request where
  "one_auth_request =
     sample_request
       [(''X-Target-URL'', ''http://example.test/foo''),
        (''authorization'', ''Basic YWxpY2U6c2VjcmV0'')]"

definition one_auth_outbound :: Request where
  "one_auth_outbound =
     \<lparr>full_url = ''http://example.test/foo'', req_method = ''GET'',
      req_headers = [(''Authorization'', ''Basic YWxpY2U6c2VjcmV0'')], data = None\<rparr>"

definition plain_request :: request where
  "plain_request = sample_request [(''X-Target-URL'', ''http://example.test/foo'')]"

definition plain_outbound :: Request where
  "plain_outbound =
     \<lparr>full_url = ''http://example.test/foo'', req_method = ''GET'',
      req_headers = [], data = None\<rparr>"




definition health_request :: request where
  "health_request = \<lparr>command = ''GET'', path = ''/health'', headers = [], rfile = []\<rparr>"

text \<open>Results of \<open>urlopen\<close>: a response in two segments, a 404, a body that breaks.\<close>

definition ok_headers :: headers where
  "ok_headers =
     [(''Content-Type'', ''text/plain''), (''Connection'', ''close''),
      (''Set-Cookie'', ''a=1''), (''Set-Cookie'', ''b=2'')]"

definition ok_result :: url_result where
  "ok_result = Response 200 ok_headers (Seg ''hello '' (Seg ''world'' Eof))"

definition not_found_result :: url_result where
  "not_found_result =
     HTTPError 404
       [(''Content-Type'', ''application/json''), (''Transfer-Encoding'', ''chunked'')]
       (Seg ''{\"error\":\"not found\"}'' Eof)"

definition broken_result :: url_result where
  "broken_result =
     Response 200 [(''Content-Type'', ''text/plain'')]
       (Seg ''hello '' (Broken ''IncompleteRead(6 bytes read, 5 more expected)''))"

text \<open>
  The CORS headers, written out: an abbreviation, so that a statement with it holds the
  headers themselves.
\<close>

abbreviation cors_headers :: "ProxyConfig \<Rightarrow> headers \<Rightarrow> event list" where
  "cors_headers cfg hs \<equiv>
     (case cors_origin cfg of
        OriginStr s \<Rightarrow>
          [Header ''Access-Control-Allow-Origin''
             (if s = ''*'' then (case get hs ''Origin'' of None \<Rightarrow> ''*'' | Some v \<Rightarrow> v) else s)]
      | OriginList l \<Rightarrow>
          (if (case get hs ''Origin'' of None \<Rightarrow> ''*'' | Some v \<Rightarrow> v) \<in> set l
           then [Header ''Access-Control-Allow-Origin''
                   (case get hs ''Origin'' of None \<Rightarrow> ''*'' | Some v \<Rightarrow> v)]
           else []))
     @ [Header ''Access-Control-Allow-Methods''
          ''GET, POST, PUT, DELETE, PATCH, OPTIONS, HEAD'',
        Header ''Access-Control-Allow-Headers'' ''*'',
        Header ''Access-Control-Allow-Credentials'' ''true'',
        Header ''Access-Control-Max-Age'' ''86400'']"

text \<open>A request with a body, and what is built from it.\<close>

definition post_request :: request where
  "post_request =
     \<lparr>command = ''POST'', path = ''/'',
      headers = [(''X-Target-URL'', ''http://example.test/foo''),
                 (''Content-Type'', ''text/plain''), (''Content-Length'', ''5'')],
      rfile = ''hello''\<rparr>"

definition post_outbound :: Request where
  "post_outbound =
     \<lparr>full_url = ''http://example.test/foo'', req_method = ''POST'',
      req_headers = [(''Content-type'', ''text/plain'')], data = Some ''hello''\<rparr>"



section \<open>Properties\<close>

subsection \<open>Strings\<close>

lemma lower_char_idem: "lower_char (lower_char c) = lower_char c"
  by (auto simp: lower_char_def Let_def)

lemma lower_upper_char: "lower_char (upper_char c) = lower_char c"
  by (auto simp: lower_char_def upper_char_def Let_def)

lemma lower_capitalize: "lower (capitalize s) = lower s"
  by (cases s) (simp_all add: capitalize_def lower_def lower_char_idem lower_upper_char)

subsection \<open>The dictionary\<close>

lemma map_of_dict_set: "map_of (dict_set d k v) = (map_of d)(k \<mapsto> v)"
  by (induction d k v rule: dict_set.induct) auto

lemma keys_dict_set: "fst ` set (dict_set d k v) = insert k (fst ` set d)"
  by (induction d k v rule: dict_set.induct) auto

lemma distinct_dict_set: "distinct (map fst d) \<Longrightarrow> distinct (map fst (dict_set d k v))"
  by (induction d k v rule: dict_set.induct) (auto simp: keys_dict_set)

lemma map_of_copy_from:
  "map_of (copy_headers_from d hs) = map_of d ++ map_of (rev (forwarded hs))"
proof (induction hs arbitrary: d)
  case Nil
  show ?case by (simp add: forwarded_def)
next
  case (Cons a hs)
  obtain h v where a: "a = (h, v)" by (cases a)
  show ?case
    by (simp add: a Cons.IH forwarded_def add_header_def map_of_dict_set map_add_def fun_eq_iff
             split: option.splits)
qed

lemma distinct_copy_from:
  "distinct (map fst d) \<Longrightarrow> distinct (map fst (copy_headers_from d hs))"
  by (induction d hs rule: copy_headers_from.induct) (auto simp: add_header_def distinct_dict_set)

lemma distinct_copy_headers: "distinct (map fst (copy_headers hs))"
  by (simp add: copy_headers_def distinct_copy_from)

lemma map_of_copy_headers: "map_of (copy_headers hs) = map_of (rev (forwarded hs))"
  by (simp add: copy_headers_def map_of_copy_from)

lemma copy_headers_mem:
  "(k, v) \<in> set (copy_headers hs) \<longleftrightarrow> map_of (rev (forwarded hs)) k = Some v"
  using distinct_copy_headers [of hs] map_of_copy_headers [of hs]
  by (metis map_of_SomeD map_of_is_SomeI)

lemma copy_headers_origin:
  assumes "(k, v) \<in> set (copy_headers hs)"
  shows "\<exists>h. (h, v) \<in> set hs \<and> lower h \<notin> set skip_headers \<and> capitalize h = k"
proof -
  from assms have "map_of (rev (forwarded hs)) k = Some v" by (simp add: copy_headers_mem)
  then have "(k, v) \<in> set (forwarded hs)" by (auto dest: map_of_SomeD)
  then show ?thesis by (auto simp: forwarded_def)
qed

lemma copy_headers_last:
  assumes "hs = pre @ (h, v) # post" and "lower h \<notin> set skip_headers"
    and "\<forall>(h', v') \<in> set post. capitalize h' \<noteq> capitalize h"
  shows "(capitalize h, v) \<in> set (copy_headers hs)"
proof -
  have "capitalize h \<notin> fst ` set (forwarded post)"
    using assms(3) by (auto simp: forwarded_def)
  then have "map_of (rev (forwarded post)) (capitalize h) = None"
    by (simp add: map_of_eq_None_iff)
  then have "map_of (rev (forwarded hs)) (capitalize h) = Some v"
    using assms(1,2) by (simp add: forwarded_def map_add_def)
  then show ?thesis by (simp add: copy_headers_mem)
qed

subsection \<open>The handler\<close>

lemma build_request_headers:
  "req_headers (build_request rq url body) =
     (if body = None then copy_headers (headers rq)
      else filter (\<lambda>(k, v). k \<noteq> ''Content-length'') (copy_headers (headers rq)))"
proof (cases body)
  case None
  then show ?thesis by (simp add: build_request_def)
next
  case (Some b)
  have "filter (\<lambda>(k, v). k \<noteq> ''Content-length'') d = d"
    if "''Content-length'' \<notin> fst ` set d" for d :: headers
    using that by (induction d) auto
  with Some show ?thesis
    by (simp add: build_request_def set_data_def has_header_def remove_header_def Let_def)
qed

lemma build_request_data: "data (build_request rq url body) = body"
  by (cases body)
     (simp_all add: build_request_def set_data_def has_header_def remove_header_def Let_def)


lemma read_body_None:
  "read_body w rq = Inr body \<Longrightarrow>
   (body = None) =
   (get (headers rq) ''Content-Length'' = None \<or> get (headers rq) ''Content-Length'' = Some [])"
  by (auto simp: read_body_def Let_def truthy_def split: option.splits sum.splits if_splits)

lemma calls_cases:
  "calls (handle_request cfg w rq) = [] \<or>
   (\<exists>url body. path rq \<noteq> ''/health'' \<and> check_auth cfg (headers rq) \<and>
      target_url w rq = Inr (Some url) \<and> url \<noteq> [] \<and> request_init w url = None \<and>
      read_body w rq = Inr body \<and>
      calls (handle_request cfg w rq) = [(build_request rq url body, ssl_context_of cfg)])"
  by (auto simp: handle_request_def relay_def Let_def truthy_def
           split: sum.splits option.splits url_result.splits prod.splits)

lemma calls_headers_mem:
  assumes "(req, ctx) \<in> set (calls (handle_request cfg w rq))"
  shows "(k, v) \<in> set (req_headers req) \<longleftrightarrow>
           (k, v) \<in> set (copy_headers (headers rq)) \<and>
           (data req = None \<or> k \<noteq> ''Content-length'')"
proof -
  from calls_cases [of cfg w rq] assms obtain url body where
    "req = build_request rq url body" by auto
  then show ?thesis
    by (cases body) (auto simp: build_request_headers build_request_data)
qed

lemma calls_headers_distinct:
  assumes "(req, ctx) \<in> set (calls (handle_request cfg w rq))"
  shows "distinct (map fst (req_headers req))"
  using calls_cases [of cfg w rq] assms distinct_copy_headers [of "headers rq"]
  by (auto simp: build_request_headers distinct_map_filter)

lemma calls_data:
  assumes "(req, ctx) \<in> set (calls (handle_request cfg w rq))"
  shows "(data req = None) =
     (get (headers rq) ''Content-Length'' = None \<or> get (headers rq) ''Content-Length'' = Some [])"
  using calls_cases [of cfg w rq] assms read_body_None [of w rq]
  by (auto simp: build_request_data)

subsection \<open>The \<open>Authorization\<close> header in the dictionary\<close>

lemma of_char_a: "(of_char CHR ''a'' :: nat) = 97" by simp
lemma of_char_A: "(of_char CHR ''A'' :: nat) = 65" by simp

lemma lower_char_a: "lower_char c = CHR ''a'' \<Longrightarrow> upper_char c = CHR ''A''"
proof -
  assume a: "lower_char c = CHR ''a''"
  have "(of_char (lower_char c) :: nat) = 97" by (simp add: a)
  then have "(of_char (upper_char c) :: nat) = 65"
    by (auto simp: lower_char_def upper_char_def Let_def split: if_splits)
  then have "of_char (upper_char c) = (of_char CHR ''A'' :: nat)" by simp
  then show ?thesis by (simp only: of_char_eq_iff)
qed

lemma lower_Authorization: "lower ''Authorization'' = ''authorization''"
  by code_simp

lemma capitalize_Authorization:
  "capitalize h = ''Authorization'' \<longleftrightarrow> lower h = ''authorization''"
proof
  assume "capitalize h = ''Authorization''"
  then have "lower (capitalize h) = lower ''Authorization''" by simp
  then show "lower h = ''authorization''"
    by (simp only: lower_capitalize lower_Authorization)
next
  assume l: "lower h = ''authorization''"
  then obtain c cs where h: "h = c # cs" by (cases h) (auto simp: lower_def)
  from l h have "lower_char c = CHR ''a''" and "map lower_char cs = ''uthorization''"
    by (simp_all add: lower_def)
  then show "capitalize h = ''Authorization''"
    by (simp add: h capitalize_def lower_char_a)
qed

lemma authorization_not_skipped: "''authorization'' \<notin> set skip_headers"
  by (simp add: skip_headers_def)

lemma forwarded_rev: "forwarded (rev hs) = rev (forwarded hs)"
  by (simp add: forwarded_def rev_map rev_filter)

lemma map_of_forwarded_Authorization:
  "map_of (forwarded hs) ''Authorization'' = get hs ''Authorization''"
proof (induction hs)
  case Nil
  show ?case by (simp add: forwarded_def)
next
  case (Cons a hs)
  obtain h v where a: "a = (h, v)" by (cases a)
  have IH: "map_of (forwarded hs) ''Authorization'' = get hs ''Authorization''" by (rule Cons.IH)
  show ?case
  proof (cases "lower h = ''authorization''")
    case True
    then have "capitalize h = ''Authorization''" by (simp add: capitalize_Authorization)
    with True show ?thesis
      using authorization_not_skipped by (simp add: a forwarded_def lower_Authorization)
  next
    case False
    then have "capitalize h \<noteq> ''Authorization''" by (simp add: capitalize_Authorization)
    with False IH show ?thesis
      by (simp add: a forwarded_def lower_Authorization)
  qed
qed

lemma copy_headers_Authorization:
  "map_of (copy_headers hs) ''Authorization'' = get (rev hs) ''Authorization''"
  by (simp add: map_of_copy_headers forwarded_rev [symmetric] map_of_forwarded_Authorization)

lemma get_mem: "get hs n = Some v \<Longrightarrow> \<exists>h. (h, v) \<in> set hs \<and> lower h = lower n"
  by (induction hs n rule: get.induct) (auto split: if_splits)

lemma get_rev_None: "get (rev hs) n = None \<longleftrightarrow> get hs n = None"
proof -
  have "\<And>xs. get xs n = None \<longleftrightarrow> (\<forall>(h, v) \<in> set xs. lower h \<noteq> lower n)"
  proof -
    fix xs show "get xs n = None \<longleftrightarrow> (\<forall>(h, v) \<in> set xs. lower h \<noteq> lower n)"
      by (induction xs n rule: get.induct) auto
  qed
  then show ?thesis by simp
qed

lemma of_char_c: "(of_char CHR ''c'' :: nat) = 99" by simp

lemma of_char_C: "(of_char CHR ''C'' :: nat) = 67" by simp

lemma lower_char_c: "lower_char c = CHR ''c'' \<Longrightarrow> upper_char c = CHR ''C''"
proof -
  assume a: "lower_char c = CHR ''c''"
  have "(of_char (lower_char c) :: nat) = 99" by (simp add: a)
  then have "(of_char (upper_char c) :: nat) = 67"
    by (auto simp: lower_char_def upper_char_def Let_def split: if_splits)
  then have "of_char (upper_char c) = (of_char CHR ''C'' :: nat)" by simp
  then show ?thesis by (simp only: of_char_eq_iff)
qed

lemma lower_Content_length: "lower ''Content-length'' = ''content-length''"
  by code_simp

lemma capitalize_Content_length:
  "capitalize h = ''Content-length'' \<longleftrightarrow> lower h = ''content-length''"
proof
  assume "capitalize h = ''Content-length''"
  then have "lower (capitalize h) = lower ''Content-length''" by simp
  then show "lower h = ''content-length''"
    by (simp only: lower_capitalize lower_Content_length)
next
  assume l: "lower h = ''content-length''"
  then obtain c cs where h: "h = c # cs" by (cases h) (auto simp: lower_def)
  from l h have "lower_char c = CHR ''c''" and "map lower_char cs = ''ontent-length''"
    by (simp_all add: lower_def)
  then show "capitalize h = ''Content-length''"
    by (simp add: h capitalize_def lower_char_c)
qed

section \<open>The claims\<close>

subsection \<open>Headers of the outbound request\<close>

text \<open>
  C1, amended. In every outbound request that \<open>handle_request\<close> issues, no header
  name equals, without case, \<open>host\<close>, \<open>connection\<close>, \<open>proxy-authorization\<close>,
  \<open>x-target-url\<close>, \<open>origin\<close> or \<open>referer\<close>; every header is an inbound header
  outside that set, with its value unchanged and its name capitalised (equal to the
  inbound name without case); each name occurs once; and for every inbound header outside
  the set that is the last one of its name, the outbound request carries its value,
  except \<open>Content-Length\<close> when a body is attached: the request has a body exactly when
  the inbound \<open>Content-Length\<close> is present and not empty, and it then has no header
  named \<open>content-length\<close>. The earlier values of a name sent several times are not
  forwarded.
\<close>

theorem outbound_headers:
  assumes "(req, ctx) \<in> set (calls (handle_request cfg w rq))"
  shows "(\<forall>(k, v) \<in> set (req_headers req).
            lower k \<notin> set skip_headers \<and>
            (\<exists>h. (h, v) \<in> set (headers rq) \<and> capitalize h = k \<and> lower h = lower k))
       \<and> distinct (map fst (req_headers req))
       \<and> (\<forall>pre h v post.
            headers rq = pre @ (h, v) # post \<and> lower h \<notin> set skip_headers \<and>
            (\<forall>(h', v') \<in> set post. capitalize h' \<noteq> capitalize h) \<and>
            (data req = None \<or> lower h \<noteq> ''content-length'')
            \<longrightarrow> (capitalize h, v) \<in> set (req_headers req))
       \<and> ((data req = None) =
            (get (headers rq) ''Content-Length'' = None
             \<or> get (headers rq) ''Content-Length'' = Some []))
       \<and> (data req \<noteq> None
            \<longrightarrow> (\<forall>(k, v) \<in> set (req_headers req). lower k \<noteq> ''content-length''))"
proof -
  note mem = calls_headers_mem [OF assms]
  have origin: "lower k \<notin> set skip_headers \<and>
          (\<exists>h. (h, v) \<in> set (headers rq) \<and> capitalize h = k \<and> lower h = lower k)"
    if "(k, v) \<in> set (req_headers req)" for k v
  proof -
    from that have "(k, v) \<in> set (copy_headers (headers rq))" by (simp add: mem)
    then obtain h where h: "(h, v) \<in> set (headers rq)" "lower h \<notin> set skip_headers"
      "capitalize h = k" using copy_headers_origin by blast
    then have "lower k = lower h" using lower_capitalize [of h] by simp
    with h show ?thesis by auto
  qed
  have c1: "\<forall>(k, v) \<in> set (req_headers req).
            lower k \<notin> set skip_headers \<and>
            (\<exists>h. (h, v) \<in> set (headers rq) \<and> capitalize h = k \<and> lower h = lower k)"
    using origin by blast
  have c2: "distinct (map fst (req_headers req))"
    using assms by (rule calls_headers_distinct)
  have c3: "\<forall>pre h v post.
            headers rq = pre @ (h, v) # post \<and> lower h \<notin> set skip_headers \<and>
            (\<forall>(h', v') \<in> set post. capitalize h' \<noteq> capitalize h) \<and>
            (data req = None \<or> lower h \<noteq> ''content-length'')
            \<longrightarrow> (capitalize h, v) \<in> set (req_headers req)"
  proof (intro allI impI)
    fix pre h v post
    assume a: "headers rq = pre @ (h, v) # post \<and> lower h \<notin> set skip_headers \<and>
            (\<forall>(h', v') \<in> set post. capitalize h' \<noteq> capitalize h) \<and>
            (data req = None \<or> lower h \<noteq> ''content-length'')"
    then have "(capitalize h, v) \<in> set (copy_headers (headers rq))"
      using copy_headers_last [of "headers rq" pre h v post] by blast
    moreover from a have "data req = None \<or> capitalize h \<noteq> ''Content-length''"
      by (simp add: capitalize_Content_length)
    ultimately show "(capitalize h, v) \<in> set (req_headers req)" by (simp add: mem)
  qed
  have c4: "(data req = None) =
            (get (headers rq) ''Content-Length'' = None
             \<or> get (headers rq) ''Content-Length'' = Some [])"
    using assms by (rule calls_data)
  have no_cl: "lower k \<noteq> ''content-length''"
    if d: "data req \<noteq> None" and kv: "(k, v) \<in> set (req_headers req)" for k v
  proof
    assume l: "lower k = ''content-length''"
    from origin [OF kv] obtain h where h: "capitalize h = k" "lower h = lower k" by blast
    from h(2) l have "lower h = ''content-length''" by simp
    then have "capitalize h = ''Content-length''"
      by (simp only: capitalize_Content_length)
    with h(1) have "k = ''Content-length''" by simp
    with kv d show False by (simp add: mem)
  qed
  have c5: "data req \<noteq> None
            \<longrightarrow> (\<forall>(k, v) \<in> set (req_headers req). lower k \<noteq> ''content-length'')"
    using no_cl by blast
  from c1 c2 c3 c4 c5 show ?thesis by (intro conjI)
qed

theorem outbound_headers_witness:
  "(api_outbound, None)
     \<in> set (calls (handle_request open_config (sample_world (Raises ''refused'')) api_request))
   \<and> (''X-api-key'', ''k1'') \<in> set (req_headers api_outbound)
   \<and> (''Accept'', ''application/json'') \<in> set (req_headers api_outbound)
   \<and> lower ''X-api-key'' \<notin> set skip_headers
   \<and> distinct (map fst (req_headers api_outbound))
   \<and> data api_outbound = None
   \<and> (post_outbound, None)
     \<in> set (calls (handle_request open_config (sample_world (Raises ''refused'')) post_request))
   \<and> data post_outbound = Some ''hello''
   \<and> get (headers post_request) ''Content-Length'' = Some ''5''
   \<and> (''Content-type'', ''text/plain'') \<in> set (req_headers post_outbound)
   \<and> ''Content-length'' \<notin> fst ` set (req_headers post_outbound)"
proof -
  have h: "(api_outbound, None)
     \<in> set (calls (handle_request open_config (sample_world (Raises ''refused'')) api_request))"
    by code_simp
  have dn: "data api_outbound = None" by (simp add: api_outbound_def)
  note c = outbound_headers [OF h]
  from c dn have last:
    "\<And>pre h v post.
       headers api_request = pre @ (h, v) # post \<Longrightarrow> lower h \<notin> set skip_headers \<Longrightarrow>
       (\<forall>(h', v') \<in> set post. capitalize h' \<noteq> capitalize h) \<Longrightarrow>
       (capitalize h, v) \<in> set (req_headers api_outbound)"
    by blast
  have "(capitalize ''X-Api-Key'', ''k1'') \<in> set (req_headers api_outbound)"
  proof (rule last)
    show "headers api_request =
        [(''X-Target-URL'', ''http://example.test/foo''), (''Host'', ''proxy.test'')]
        @ (''X-Api-Key'', ''k1'')
        # [(''Accept'', ''text/html''), (''Accept'', ''application/json'')]"
      by (simp add: api_request_def sample_request_def)
    show "lower ''X-Api-Key'' \<notin> set skip_headers" by code_simp
    show "\<forall>(h', v') \<in> set [(''Accept'', ''text/html''), (''Accept'', ''application/json'')].
            capitalize h' \<noteq> capitalize ''X-Api-Key''"
      by code_simp
  qed
  moreover have "capitalize ''X-Api-Key'' = ''X-api-key''" by code_simp
  ultimately have k: "(''X-api-key'', ''k1'') \<in> set (req_headers api_outbound)" by simp
  have "(capitalize ''Accept'', ''application/json'') \<in> set (req_headers api_outbound)"
  proof (rule last)
    show "headers api_request =
        [(''X-Target-URL'', ''http://example.test/foo''), (''Host'', ''proxy.test''),
         (''X-Api-Key'', ''k1''), (''Accept'', ''text/html'')]
        @ (''Accept'', ''application/json'') # []"
      by (simp add: api_request_def sample_request_def)
    show "lower ''Accept'' \<notin> set skip_headers" by code_simp
    show "\<forall>(h', v') \<in> set []. capitalize h' \<noteq> capitalize ''Accept''" by simp
  qed
  moreover have "capitalize ''Accept'' = ''Accept''" by code_simp
  ultimately have a: "(''Accept'', ''application/json'') \<in> set (req_headers api_outbound)"
    by simp
  from c k have s: "lower ''X-api-key'' \<notin> set skip_headers" by blast
  from c have d: "distinct (map fst (req_headers api_outbound))" by blast
  have hp: "(post_outbound, None)
     \<in> set (calls (handle_request open_config (sample_world (Raises ''refused'')) post_request))"
    by code_simp
  have dp: "data post_outbound = Some ''hello''" by (simp add: post_outbound_def)
  note p = outbound_headers [OF hp]
  from p dp have g: "get (headers post_request) ''Content-Length'' \<noteq> None"
    by auto
  have g5: "get (headers post_request) ''Content-Length'' = Some ''5''" by code_simp
  from p have plast:
    "\<And>pre h v post.
       headers post_request = pre @ (h, v) # post \<Longrightarrow> lower h \<notin> set skip_headers \<Longrightarrow>
       (\<forall>(h', v') \<in> set post. capitalize h' \<noteq> capitalize h) \<Longrightarrow>
       lower h \<noteq> ''content-length'' \<Longrightarrow>
       (capitalize h, v) \<in> set (req_headers post_outbound)"
    by blast
  have "(capitalize ''Content-Type'', ''text/plain'') \<in> set (req_headers post_outbound)"
  proof (rule plast)
    show "headers post_request =
        [(''X-Target-URL'', ''http://example.test/foo'')]
        @ (''Content-Type'', ''text/plain'') # [(''Content-Length'', ''5'')]"
      by (simp add: post_request_def)
    show "lower ''Content-Type'' \<notin> set skip_headers" by code_simp
    show "\<forall>(h', v') \<in> set [(''Content-Length'', ''5'')].
            capitalize h' \<noteq> capitalize ''Content-Type''"
      by code_simp
    show "lower ''Content-Type'' \<noteq> ''content-length''" by code_simp
  qed
  moreover have "capitalize ''Content-Type'' = ''Content-type''" by code_simp
  ultimately have ct: "(''Content-type'', ''text/plain'') \<in> set (req_headers post_outbound)"
    by simp
  from p dp have "\<forall>(k, v) \<in> set (req_headers post_outbound). lower k \<noteq> ''content-length''"
    by simp
  then have ncl: "''Content-length'' \<notin> fst ` set (req_headers post_outbound)"
    using lower_Content_length by force
  from h k a s d dn hp dp g5 ct ncl show ?thesis by blast
qed

text \<open>
  The claim as stated fails: of two \<open>Accept\<close> headers the outbound request has the
  second only.
\<close>

theorem multi_value_counterexample:
  "calls (handle_request open_config (sample_world (Raises ''refused''))
      (sample_request
         [(''X-Target-URL'', ''http://example.test/foo''), (''Host'', ''proxy.test''),
          (''X-Api-Key'', ''k1''), (''Accept'', ''text/html''),
          (''Accept'', ''application/json'')]))
   = [(\<lparr>full_url = ''http://example.test/foo'', req_method = ''GET'',
        req_headers = [(''X-api-key'', ''k1''), (''Accept'', ''application/json'')],
        data = None\<rparr>, None)]"
  by code_simp

text \<open>
  C10, amended. \<open>authorization\<close> is not in the skip set: for every relayed request
  that carries an \<open>Authorization\<close> header, the outbound request has exactly one
  header of that name, spelled \<open>Authorization\<close>, and its value is the value of the
  last inbound \<open>Authorization\<close> header; when all inbound \<open>Authorization\<close> headers
  have one value, that value is forwarded.
\<close>

theorem authorization_forwarded:
  assumes "(req, ctx) \<in> set (calls (handle_request cfg w rq))"
    and "get (headers rq) ''Authorization'' = Some v0"
  shows "\<exists>v. get (rev (headers rq)) ''Authorization'' = Some v
          \<and> (''Authorization'', v) \<in> set (req_headers req)
          \<and> (\<forall>k v'. (k, v') \<in> set (req_headers req) \<and> lower k = ''authorization''
                 \<longrightarrow> k = ''Authorization'' \<and> v' = v)
          \<and> ((\<forall>(h, v') \<in> set (headers rq). lower h = ''authorization'' \<longrightarrow> v' = v0)
                 \<longrightarrow> v = v0)"
proof -
  let ?hs = "headers rq"
  note in_req = calls_headers_mem [OF assms(1)]
  have "get (rev ?hs) ''Authorization'' \<noteq> None"
    using assms(2) by (simp add: get_rev_None)
  then obtain v where v: "get (rev ?hs) ''Authorization'' = Some v" by blast
  then have m: "map_of (copy_headers ?hs) ''Authorization'' = Some v"
    by (simp add: copy_headers_Authorization)
  then have mem: "(''Authorization'', v) \<in> set (copy_headers ?hs)"
    by (rule map_of_SomeD)
  have uniq: "k = ''Authorization'' \<and> v' = v"
    if "(k, v') \<in> set (copy_headers ?hs)" and "lower k = ''authorization''" for k v'
  proof -
    from that(1) obtain h where "capitalize h = k" using copy_headers_origin by blast
    then have "lower h = lower k" using lower_capitalize [of h] by simp
    with that(2) have "capitalize h = ''Authorization''"
      by (simp only: capitalize_Authorization)
    with \<open>capitalize h = k\<close> have k: "k = ''Authorization''" by simp
    with that(1) have "map_of (copy_headers ?hs) ''Authorization'' = Some v'"
      using distinct_copy_headers [of ?hs] by simp
    with m k show ?thesis by simp
  qed
  have single: "v = v0"
    if "\<forall>(h, v') \<in> set ?hs. lower h = ''authorization'' \<longrightarrow> v' = v0"
  proof -
    from v obtain h where "(h, v) \<in> set (rev ?hs)" "lower h = lower ''Authorization''"
      using get_mem by blast
    with that show ?thesis by (auto simp: lower_Authorization)
  qed
  from mem have mem': "(''Authorization'', v) \<in> set (req_headers req)"
    by (simp add: in_req)
  have uniq': "k = ''Authorization'' \<and> v' = v"
    if "(k, v') \<in> set (req_headers req)" and "lower k = ''authorization''" for k v'
    using that uniq [of k v'] by (simp add: in_req)
  from v mem' uniq' single show ?thesis by blast
qed

theorem authorization_forwarded_witness:
  "(one_auth_outbound, None)
     \<in> set (calls (handle_request alice_config (sample_world (Raises ''refused''))
                 one_auth_request))
   \<and> get (headers one_auth_request) ''Authorization'' = Some ''Basic YWxpY2U6c2VjcmV0''
   \<and> (\<exists>v. get (rev (headers one_auth_request)) ''Authorization'' = Some v
          \<and> (''Authorization'', v) \<in> set (req_headers one_auth_outbound))
   \<and> (''Authorization'', ''Basic YWxpY2U6c2VjcmV0'') \<in> set (req_headers one_auth_outbound)"
proof -
  have h1: "(one_auth_outbound, None)
     \<in> set (calls (handle_request alice_config (sample_world (Raises ''refused''))
                 one_auth_request))"
    by code_simp
  have h2: "get (headers one_auth_request) ''Authorization'' = Some ''Basic YWxpY2U6c2VjcmV0''"
    by code_simp
  have h3: "\<forall>(h, v') \<in> set (headers one_auth_request).
              lower h = ''authorization'' \<longrightarrow> v' = ''Basic YWxpY2U6c2VjcmV0''"
    by code_simp
  note t = authorization_forwarded [OF h1 h2]
  from t have e: "\<exists>v. get (rev (headers one_auth_request)) ''Authorization'' = Some v
          \<and> (''Authorization'', v) \<in> set (req_headers one_auth_outbound)"
    by blast
  from t h3 have "(''Authorization'', ''Basic YWxpY2U6c2VjcmV0'')
      \<in> set (req_headers one_auth_outbound)"
    by blast
  with h1 h2 e show ?thesis by blast
qed

text \<open>
  The claim as stated fails: the first \<open>Authorization\<close> header, which authenticates
  the client to the proxy, is not forwarded when a second one follows it.
\<close>

theorem first_authorization_counterexample:
  "check_auth alice_config (headers two_auth_request)
   \<and> get (headers two_auth_request) ''Authorization'' = Some ''Basic YWxpY2U6c2VjcmV0''
   \<and> calls (handle_request alice_config (sample_world (Raises ''refused'')) two_auth_request)
     = [(\<lparr>full_url = ''http://example.test/foo'', req_method = ''GET'',
          req_headers = [(''Authorization'', ''Bearer t0'')], data = None\<rparr>, None)]"
  by code_simp

subsection \<open>The access gate\<close>










text \<open>
  C9. When the configured user name or the configured password is absent or empty,
  \<open>check_auth\<close> returns true for every request, whatever its headers: a user name
  without a password does not gate access.
\<close>

theorem auth_disabled:
  assumes "username cfg = None \<or> username cfg = Some [] \<or>
           password cfg = None \<or> password cfg = Some []"
  shows "check_auth cfg hs"
  using assms by (auto simp: check_auth_def truthy_def)

theorem auth_disabled_witness:
  "username half_config = Some ''alice'' \<and> password half_config = None
   \<and> check_auth half_config [(''Authorization'', ''Basic not-base64!!'')]
   \<and> check_auth half_config []"
proof -
  have u: "username half_config = Some ''alice''" and p: "password half_config = None"
    by (simp_all add: half_config_def open_config_def)
  then have h: "username half_config = None \<or> username half_config = Some [] \<or>
           password half_config = None \<or> password half_config = Some []"
    by simp
  from u p auth_disabled [OF h] show ?thesis by simp
qed

subsection \<open>Reading the upstream body\<close>

lemma stream_read_Inr:
  "stream_read n s = (Inr c, s') \<Longrightarrow>
   stream_bytes s = c @ stream_bytes s' \<and> length c \<le> n \<and> (intact s \<longrightarrow> intact s')"
proof (induction s)
  case (Seg bs s)
  show ?case
  proof (cases "bs = []")
    case True
    with Seg show ?thesis by simp
  next
    case False
    with Seg.prems have "c = take n bs"
      and "s' = (if drop n bs = [] then s else Seg (drop n bs) s)"
      by auto
    then show ?thesis
      by (auto simp: append_eq_conv_conj)
  qed
qed auto

lemma stream_read_empty:
  "stream_read n s = (Inr [], s') \<Longrightarrow> 0 < n \<Longrightarrow> stream_bytes s = []"
  by (induction s) (auto split: if_splits)

lemma stream_read_Inl: "stream_read n s = (Inl e, s') \<Longrightarrow> \<not> intact s"
  by (induction s) (auto split: if_splits)

lemma copy_loop_intact:
  "intact s \<Longrightarrow>
   \<exists>chunks. copy_loop s =
              (concat (map (\<lambda>c. [ReadChunk c, WriteChunk c]) chunks) @ [ReadChunk []], None) \<and>
            concat chunks = stream_bytes s \<and>
            (\<forall>c \<in> set chunks. c \<noteq> [] \<and> length c \<le> CHUNK)"
proof (induction s rule: copy_loop.induct)
  case (1 s)
  obtain r s' where rd: "stream_read CHUNK s = (r, s')" by (cases "stream_read CHUNK s")
  show ?case
  proof (cases r)
    case (Inl e)
    with rd "1.prems" show ?thesis using stream_read_Inl by blast
  next
    case (Inr c)
    note facts = stream_read_Inr [OF rd [unfolded Inr]]
    show ?thesis
    proof (cases "c = []")
      case True
      have "stream_bytes s = []"
        using rd Inr True stream_read_empty [of CHUNK s s'] by (simp add: CHUNK_def)
      moreover have "copy_loop s = ([ReadChunk []], None)"
        using rd Inr True by (simp add: copy_loop.simps [of s])
      ultimately show ?thesis by (intro exI [of _ "[]"]) simp
    next
      case False
      from facts "1.prems" have "intact s'" by simp
      with "1.IH" [OF rd [symmetric, unfolded Inr] refl False]
      obtain chunks where ch: "copy_loop s' =
          (concat (map (\<lambda>c. [ReadChunk c, WriteChunk c]) chunks) @ [ReadChunk []], None)"
        "concat chunks = stream_bytes s'" "\<forall>c \<in> set chunks. c \<noteq> [] \<and> length c \<le> CHUNK"
        by blast
      have "copy_loop s =
          (concat (map (\<lambda>c. [ReadChunk c, WriteChunk c]) (c # chunks)) @ [ReadChunk []], None)"
        using rd Inr False ch(1) by (simp add: copy_loop.simps [of s])
      moreover have "concat (c # chunks) = stream_bytes s"
        using facts ch(2) by simp
      moreover have "\<forall>x \<in> set (c # chunks). x \<noteq> [] \<and> length x \<le> CHUNK"
        using False facts ch(3) by simp
      ultimately show ?thesis by blast
    qed
  qed
qed

lemma writes_of_alternating:
  "writes_of (concat (map (\<lambda>c. [ReadChunk c, WriteChunk c]) chunks) @ [ReadChunk []])
     = map (\<lambda>c. Write (Raw c)) chunks"
  by (induction chunks) simp_all

lemma read_all_intact: "intact s \<Longrightarrow> read_all s = Inr (stream_bytes s)"
  by (induction s) auto

subsection \<open>The branches of the handler\<close>

lemma handle_request_relay:
  assumes "path rq \<noteq> ''/health''" and "check_auth cfg (headers rq)"
    and "target_url w rq = Inr (Some url)" and "url \<noteq> []"
  shows "handle_request cfg w rq = relay cfg w rq url"
  using assms by (simp add: handle_request_def truthy_def)

lemma relay_urlopen:
  assumes "request_init w url = None" and "read_body w rq = Inr body"
  shows "relay cfg w rq url =
     (case urlopen w (build_request rq url body) (ssl_context_of cfg) of
        Response code up_hs s \<Rightarrow>
          (case copy_body s of
             (writes, None) \<Rightarrow>
               \<lparr>sent = relay_head cfg w (headers rq) code up_hs @ writes,
                calls = [(build_request rq url body, ssl_context_of cfg)], raised = None\<rparr>
           | (writes, Some e) \<Rightarrow>
               \<lparr>sent = relay_head cfg w (headers rq) code up_hs @ writes
                       @ proxy_error cfg w (headers rq) e,
                calls = [(build_request rq url body, ssl_context_of cfg)], raised = None\<rparr>)
      | HTTPError code up_hs s \<Rightarrow>
          (case read_all s of
             Inr b \<Rightarrow>
               \<lparr>sent = relay_head cfg w (headers rq) code up_hs @ [Write (Raw b)],
                calls = [(build_request rq url body, ssl_context_of cfg)], raised = None\<rparr>
           | Inl e \<Rightarrow>
               \<lparr>sent = relay_head cfg w (headers rq) code up_hs,
                calls = [(build_request rq url body, ssl_context_of cfg)], raised = Some e\<rparr>)
      | Raises e \<Rightarrow>
          \<lparr>sent = proxy_error cfg w (headers rq) e,
           calls = [(build_request rq url body, ssl_context_of cfg)], raised = None\<rparr>)"
  using assms by (simp add: relay_def Let_def)

lemma relay_head_eq:
  "relay_head cfg w hs code up_hs =
     [Status code, Header ''Server'' (version_string w), Header ''Date'' (date_time_string w)]
     @ map (\<lambda>(h, v). Header h v)
         (filter (\<lambda>(h, v). lower h \<noteq> ''connection'' \<and> lower h \<noteq> ''transfer-encoding'') up_hs)
     @ send_cors_headers cfg hs @ [EndHeaders]"
  by (simp add: relay_head_def relay_headers_def send_response_def)

lemma proxy_error_eq:
  "proxy_error cfg w hs e =
     [Status 500, Header ''Server'' (version_string w), Header ''Date'' (date_time_string w),
      Header ''Content-Type'' ''application/json'']
     @ send_cors_headers cfg hs
     @ [EndHeaders,
        Write (Json (JObject [(''error'', JString ''Proxy error''), (''message'', JString e)]))]"
  by (simp add: proxy_error_def send_response_def)

lemma sample_hyps:
  "path plain_request \<noteq> ''/health''"
  "check_auth open_config (headers plain_request)"
  "target_url (sample_world r) plain_request = Inr (Some ''http://example.test/foo'')"
  "''http://example.test/foo'' \<noteq> []"
  "request_init (sample_world r) ''http://example.test/foo'' = None"
  "read_body (sample_world r) plain_request = Inr None"
  "build_request plain_request ''http://example.test/foo'' None = plain_outbound"
  "ssl_context_of open_config = None"
  "urlopen (sample_world r) q c = r"
  "headers plain_request = [(''X-Target-URL'', ''http://example.test/foo'')]"
  "version_string (sample_world r) = ''BaseHTTP/0.6 Python/3.11.4''"
  "date_time_string (sample_world r) = ''Mon, 01 Jan 2024 00:00:00 GMT''"
proof -
  show "path plain_request \<noteq> ''/health''" by code_simp
  show "check_auth open_config (headers plain_request)" by code_simp
  have "get (headers plain_request) ''X-Target-URL'' = Some ''http://example.test/foo''"
    by code_simp
  then show "target_url (sample_world r) plain_request = Inr (Some ''http://example.test/foo'')"
    by (simp add: target_url_def truthy_def)
  show "''http://example.test/foo'' \<noteq> []" by simp
  have "splittype_matches (fst (splittag (unwrap ''http://example.test/foo'')))"
    by code_simp
  then show "request_init (sample_world r) ''http://example.test/foo'' = None"
    by (simp add: request_init_def sample_world_def)
  have "get (headers plain_request) ''Content-Length'' = None" by code_simp
  then show "read_body (sample_world r) plain_request = Inr None"
    by (simp add: read_body_def truthy_def)
  show "build_request plain_request ''http://example.test/foo'' None = plain_outbound"
    by code_simp
  show "ssl_context_of open_config = None" by code_simp
  show "urlopen (sample_world r) q c = r" by (simp add: sample_world_def)
  show "headers plain_request = [(''X-Target-URL'', ''http://example.test/foo'')]"
    by (simp add: plain_request_def sample_request_def)
  show "version_string (sample_world r) = ''BaseHTTP/0.6 Python/3.11.4''"
    by (simp add: sample_world_def)
  show "date_time_string (sample_world r) = ''Mon, 01 Jan 2024 00:00:00 GMT''"
    by (simp add: sample_world_def)
qed

lemma large_body:
  "copy_body (Seg (replicate 10000 CHR ''a'') Eof) =
     ([Write (Raw (replicate 8192 CHR ''a'')), Write (Raw (replicate 1808 CHR ''a''))], None)"
  by (simp add: copy_body_def copy_loop.simps [of "Seg _ _"] copy_loop.simps [of Eof] CHUNK_def)

subsection \<open>Relaying and its failures\<close>

text \<open>
  C3. On the success path (\<open>urlopen\<close> returns a response and its body arrives whole)
  the client gets the upstream status code, then \<open>Server\<close> and \<open>Date\<close> of
  \<open>send_response\<close>, every upstream header except those named \<open>connection\<close> or
  \<open>transfer-encoding\<close> without case, in order and with repetitions, the CORS headers
  (\<open>Access-Control-Allow-Origin\<close> as the configuration and the request's \<open>Origin\<close>
  decide, then \<open>Allow-Methods\<close>, \<open>Allow-Headers\<close>, \<open>Allow-Credentials\<close> and
  \<open>Max-Age\<close>), the end of the header block, and the body in writes of at least one and
  at most 8192 bytes that together are the bytes the target sent, whatever their number.
  The body is not buffered: the loop reads a chunk, writes it, and only then reads the
  next one, up to the empty read that ends it. No exception leaves the handler.
\<close>

theorem success_relay:
  assumes "path rq \<noteq> ''/health''" and "check_auth cfg (headers rq)"
    and "target_url w rq = Inr (Some url)" and "url \<noteq> []"
    and "request_init w url = None" and "read_body w rq = Inr body"
    and "urlopen w (build_request rq url body) (ssl_context_of cfg) = Response code up_hs s"
    and "intact s"
  shows "\<exists>chunks.
           sent (handle_request cfg w rq) =
             [Status code, Header ''Server'' (version_string w),
              Header ''Date'' (date_time_string w)]
             @ map (\<lambda>(h, v). Header h v)
                 (filter (\<lambda>(h, v). lower h \<noteq> ''connection'' \<and> lower h \<noteq> ''transfer-encoding'')
                    up_hs)
             @ cors_headers cfg (headers rq) @ [EndHeaders]
             @ map (\<lambda>c. Write (Raw c)) chunks
         \<and> concat chunks = stream_bytes s
         \<and> (\<forall>c \<in> set chunks. c \<noteq> [] \<and> length c \<le> 8192)
         \<and> fst (copy_loop s) =
             concat (map (\<lambda>c. [ReadChunk c, WriteChunk c]) chunks) @ [ReadChunk []]
         \<and> raised (handle_request cfg w rq) = None"
proof -
  from copy_loop_intact [OF assms(8)] obtain chunks where
    ch: "copy_loop s =
          (concat (map (\<lambda>c. [ReadChunk c, WriteChunk c]) chunks) @ [ReadChunk []], None)"
      "concat chunks = stream_bytes s" "\<forall>c \<in> set chunks. c \<noteq> [] \<and> length c \<le> CHUNK"
    by blast
  then have cb: "copy_body s = (map (\<lambda>c. Write (Raw c)) chunks, None)"
    by (simp add: copy_body_def writes_of_alternating)
  have "handle_request cfg w rq =
      \<lparr>sent = relay_head cfg w (headers rq) code up_hs @ map (\<lambda>c. Write (Raw c)) chunks,
       calls = [(build_request rq url body, ssl_context_of cfg)], raised = None\<rparr>"
    by (simp add: handle_request_relay [OF assms(1-4)] relay_urlopen [OF assms(5,6)] assms(7) cb)
  then have "sent (handle_request cfg w rq) =
       relay_head cfg w (headers rq) code up_hs @ map (\<lambda>c. Write (Raw c)) chunks"
    and "raised (handle_request cfg w rq) = None"
    by simp_all
  with ch show ?thesis
    by (intro exI [of _ chunks])
       (simp add: relay_head_eq send_cors_headers_def Let_def CHUNK_def
          split: cors_origin.splits)
qed

theorem success_relay_witness:
  "path plain_request \<noteq> ''/health'' \<and> check_auth open_config (headers plain_request)
   \<and> target_url (sample_world ok_result) plain_request = Inr (Some ''http://example.test/foo'')
   \<and> request_init (sample_world ok_result) ''http://example.test/foo'' = None
   \<and> read_body (sample_world ok_result) plain_request = Inr None
   \<and> urlopen (sample_world ok_result)
        (build_request plain_request ''http://example.test/foo'' None)
        (ssl_context_of open_config)
       = Response 200 ok_headers (Seg ''hello '' (Seg ''world'' Eof))
   \<and> intact (Seg ''hello '' (Seg ''world'' Eof))
   \<and> (\<exists>chunks.
         sent (handle_request open_config (sample_world ok_result) plain_request) =
           [Status 200, Header ''Server'' ''BaseHTTP/0.6 Python/3.11.4'',
            Header ''Date'' ''Mon, 01 Jan 2024 00:00:00 GMT'',
            Header ''Content-Type'' ''text/plain'',
            Header ''Set-Cookie'' ''a=1'', Header ''Set-Cookie'' ''b=2'',
            Header ''Access-Control-Allow-Origin'' ''*'',
            Header ''Access-Control-Allow-Methods''
              ''GET, POST, PUT, DELETE, PATCH, OPTIONS, HEAD'',
            Header ''Access-Control-Allow-Headers'' ''*'',
            Header ''Access-Control-Allow-Credentials'' ''true'',
            Header ''Access-Control-Max-Age'' ''86400'',
            EndHeaders]
           @ map (\<lambda>c. Write (Raw c)) chunks
         \<and> concat chunks = ''hello world''
         \<and> fst (copy_loop (Seg ''hello '' (Seg ''world'' Eof))) =
             concat (map (\<lambda>c. [ReadChunk c, WriteChunk c]) chunks) @ [ReadChunk []])
   \<and> raised (handle_request open_config (sample_world ok_result) plain_request) = None"
proof -
  let ?w = "sample_world ok_result"
  have u: "urlopen ?w (build_request plain_request ''http://example.test/foo'' None)
        (ssl_context_of open_config)
       = Response 200 ok_headers (Seg ''hello '' (Seg ''world'' Eof))"
    by (simp add: sample_hyps(9) ok_result_def)
  have i: "intact (Seg ''hello '' (Seg ''world'' Eof))" by simp
  have f: "map (\<lambda>(h, v). Header h v)
             (filter (\<lambda>(h, v). lower h \<noteq> ''connection'' \<and> lower h \<noteq> ''transfer-encoding'')
                ok_headers)
           = [Header ''Content-Type'' ''text/plain'',
              Header ''Set-Cookie'' ''a=1'', Header ''Set-Cookie'' ''b=2'']"
    by code_simp
  have co: "cors_origin open_config = OriginStr ''*''" by (simp add: open_config_def)
  have og: "get (headers plain_request) ''Origin'' = None" by code_simp
  note t = success_relay [OF sample_hyps(1,2,3,4,5,6) u i]
  from t have "\<exists>chunks.
         sent (handle_request open_config ?w plain_request) =
           [Status 200, Header ''Server'' ''BaseHTTP/0.6 Python/3.11.4'',
            Header ''Date'' ''Mon, 01 Jan 2024 00:00:00 GMT'',
            Header ''Content-Type'' ''text/plain'',
            Header ''Set-Cookie'' ''a=1'', Header ''Set-Cookie'' ''b=2'',
            Header ''Access-Control-Allow-Origin'' ''*'',
            Header ''Access-Control-Allow-Methods''
              ''GET, POST, PUT, DELETE, PATCH, OPTIONS, HEAD'',
            Header ''Access-Control-Allow-Headers'' ''*'',
            Header ''Access-Control-Allow-Credentials'' ''true'',
            Header ''Access-Control-Max-Age'' ''86400'',
            EndHeaders]
           @ map (\<lambda>c. Write (Raw c)) chunks
         \<and> concat chunks = ''hello world''
         \<and> fst (copy_loop (Seg ''hello '' (Seg ''world'' Eof))) =
             concat (map (\<lambda>c. [ReadChunk c, WriteChunk c]) chunks) @ [ReadChunk []]"
    by (simp only: f co og sample_hyps(11,12)) auto
  moreover from t have "raised (handle_request open_config ?w plain_request) = None"
    by blast
  ultimately show ?thesis
    using sample_hyps(1,2,3,5,6) u i by blast
qed

text \<open>
  C5. When \<open>urlopen\<close> raises \<open>HTTPError\<close> and the body of the error can be read, the
  client gets the upstream status code, the upstream headers under the same filter, the
  CORS headers, and one write of the upstream body, unchanged: no proxy error wraps it.
\<close>

theorem upstream_error_passthrough:
  assumes "path rq \<noteq> ''/health''" and "check_auth cfg (headers rq)"
    and "target_url w rq = Inr (Some url)" and "url \<noteq> []"
    and "request_init w url = None" and "read_body w rq = Inr body"
    and "urlopen w (build_request rq url body) (ssl_context_of cfg) = HTTPError code up_hs s"
    and "intact s"
  shows "handle_request cfg w rq =
           \<lparr>sent =
              [Status code, Header ''Server'' (version_string w),
               Header ''Date'' (date_time_string w)]
              @ map (\<lambda>(h, v). Header h v)
                  (filter (\<lambda>(h, v). lower h \<noteq> ''connection'' \<and> lower h \<noteq> ''transfer-encoding'')
                     up_hs)
              @ send_cors_headers cfg (headers rq)
              @ [EndHeaders, Write (Raw (stream_bytes s))],
            calls = [(build_request rq url body, ssl_context_of cfg)],
            raised = None\<rparr>"
  by (simp add: handle_request_relay [OF assms(1-4)] relay_urlopen [OF assms(5,6)] assms(7)
        read_all_intact [OF assms(8)] relay_head_eq)

theorem upstream_error_passthrough_witness:
  "path plain_request \<noteq> ''/health'' \<and> check_auth open_config (headers plain_request)
   \<and> target_url (sample_world not_found_result) plain_request
       = Inr (Some ''http://example.test/foo'')
   \<and> request_init (sample_world not_found_result) ''http://example.test/foo'' = None
   \<and> read_body (sample_world not_found_result) plain_request = Inr None
   \<and> urlopen (sample_world not_found_result)
        (build_request plain_request ''http://example.test/foo'' None)
        (ssl_context_of open_config)
       = HTTPError 404
           [(''Content-Type'', ''application/json''), (''Transfer-Encoding'', ''chunked'')]
           (Seg ''{\"error\":\"not found\"}'' Eof)
   \<and> intact (Seg ''{\"error\":\"not found\"}'' Eof)
   \<and> handle_request open_config (sample_world not_found_result) plain_request =
         \<lparr>sent =
            [Status 404, Header ''Server'' ''BaseHTTP/0.6 Python/3.11.4'',
             Header ''Date'' ''Mon, 01 Jan 2024 00:00:00 GMT'',
             Header ''Content-Type'' ''application/json'']
            @ send_cors_headers open_config (headers plain_request)
            @ [EndHeaders, Write (Raw ''{\"error\":\"not found\"}'')],
          calls = [(plain_outbound, None)],
          raised = None\<rparr>"
proof -
  let ?w = "sample_world not_found_result"
  have u: "urlopen ?w (build_request plain_request ''http://example.test/foo'' None)
        (ssl_context_of open_config)
       = HTTPError 404
           [(''Content-Type'', ''application/json''), (''Transfer-Encoding'', ''chunked'')]
           (Seg ''{\"error\":\"not found\"}'' Eof)"
    by (simp add: sample_hyps(9) not_found_result_def)
  have i: "intact (Seg ''{\"error\":\"not found\"}'' Eof)" by simp
  have f: "map (\<lambda>(h, v). Header h v)
             (filter (\<lambda>(h, v). lower h \<noteq> ''connection'' \<and> lower h \<noteq> ''transfer-encoding'')
                [(''Content-Type'', ''application/json''), (''Transfer-Encoding'', ''chunked'')])
           = [Header ''Content-Type'' ''application/json'']"
    by code_simp
  have "handle_request open_config ?w plain_request =
         \<lparr>sent =
            [Status 404, Header ''Server'' ''BaseHTTP/0.6 Python/3.11.4'',
             Header ''Date'' ''Mon, 01 Jan 2024 00:00:00 GMT'',
             Header ''Content-Type'' ''application/json'']
            @ send_cors_headers open_config (headers plain_request)
            @ [EndHeaders, Write (Raw ''{\"error\":\"not found\"}'')],
          calls = [(plain_outbound, None)],
          raised = None\<rparr>"
    using upstream_error_passthrough [OF sample_hyps(1,2,3,4,5,6) u i]
    by (simp only: f sample_hyps(7,8,11,12)) simp
  then show ?thesis
    using sample_hyps(1,2,3,5,6) u i by blast
qed

text \<open>
  C6. When the outbound call fails otherwise, either \<open>Request(url)\<close> rejecting the URL
  or \<open>urlopen\<close> raising an exception that is not an \<open>HTTPError\<close>, the client gets
  exactly the status 500 with \<open>Content-Type: application/json\<close>, the CORS headers
  (\<open>Access-Control-Allow-Origin\<close> as the configuration and the request's \<open>Origin\<close>
  decide, then \<open>Allow-Methods\<close>, \<open>Allow-Headers\<close>, \<open>Allow-Credentials\<close> and
  \<open>Max-Age\<close>), and the JSON object with \<open>error\<close> equal to \<open>Proxy error\<close> and
  \<open>message\<close> equal to \<open>str(e)\<close>; the handler returns without an exception.
\<close>

theorem transport_failure:
  assumes "path rq \<noteq> ''/health''" and "check_auth cfg (headers rq)"
    and "target_url w rq = Inr (Some url)" and "url \<noteq> []"
    and "request_init w url = Some e \<or>
         (request_init w url = None \<and> read_body w rq = Inr body \<and>
          urlopen w (build_request rq url body) (ssl_context_of cfg) = Raises e)"
  shows "sent (handle_request cfg w rq) =
           [Status 500, Header ''Server'' (version_string w),
            Header ''Date'' (date_time_string w),
            Header ''Content-Type'' ''application/json'']
           @ cors_headers cfg (headers rq)
           @ [EndHeaders,
              Write (Json (JObject
                [(''error'', JString ''Proxy error''), (''message'', JString e)]))]
         \<and> raised (handle_request cfg w rq) = None"
proof -
  have r: "handle_request cfg w rq = relay cfg w rq url"
    by (rule handle_request_relay [OF assms(1-4)])
  from assms(5) show ?thesis
  proof
    assume "request_init w url = Some e"
    then show ?thesis
      by (simp add: r relay_def proxy_error_eq send_cors_headers_def Let_def
            split: cors_origin.splits)
  next
    assume a: "request_init w url = None \<and> read_body w rq = Inr body \<and>
          urlopen w (build_request rq url body) (ssl_context_of cfg) = Raises e"
    then have "relay cfg w rq url =
        \<lparr>sent = proxy_error cfg w (headers rq) e,
         calls = [(build_request rq url body, ssl_context_of cfg)], raised = None\<rparr>"
      using relay_urlopen [of w url rq body cfg] by simp
    then show ?thesis
      by (simp add: r proxy_error_eq send_cors_headers_def Let_def
            split: cors_origin.splits)
  qed
qed

theorem transport_failure_witness:
  "path plain_request \<noteq> ''/health'' \<and> check_auth open_config (headers plain_request)
   \<and> target_url (sample_world (Raises ''<urlopen error [Errno 111] Connection refused>''))
        plain_request = Inr (Some ''http://example.test/foo'')
   \<and> request_init (sample_world (Raises ''<urlopen error [Errno 111] Connection refused>''))
        ''http://example.test/foo'' = None
   \<and> read_body (sample_world (Raises ''<urlopen error [Errno 111] Connection refused>''))
        plain_request = Inr None
   \<and> urlopen (sample_world (Raises ''<urlopen error [Errno 111] Connection refused>''))
        (build_request plain_request ''http://example.test/foo'' None)
        (ssl_context_of open_config)
       = Raises ''<urlopen error [Errno 111] Connection refused>''
   \<and> sent (handle_request open_config
              (sample_world (Raises ''<urlopen error [Errno 111] Connection refused>''))
              plain_request) =
         [Status 500, Header ''Server'' ''BaseHTTP/0.6 Python/3.11.4'',
          Header ''Date'' ''Mon, 01 Jan 2024 00:00:00 GMT'',
          Header ''Content-Type'' ''application/json'',
          Header ''Access-Control-Allow-Origin'' ''*'',
          Header ''Access-Control-Allow-Methods''
            ''GET, POST, PUT, DELETE, PATCH, OPTIONS, HEAD'',
          Header ''Access-Control-Allow-Headers'' ''*'',
          Header ''Access-Control-Allow-Credentials'' ''true'',
          Header ''Access-Control-Max-Age'' ''86400'',
          EndHeaders,
          Write (Json (JObject
            [(''error'', JString ''Proxy error''),
             (''message'', JString ''<urlopen error [Errno 111] Connection refused>'')]))]
   \<and> raised (handle_request open_config
              (sample_world (Raises ''<urlopen error [Errno 111] Connection refused>''))
              plain_request) = None
   \<and> target_url (sample_world ok_result)
        (sample_request [(''X-Target-URL'', ''example.test/foo'')])
       = Inr (Some ''example.test/foo'')
   \<and> request_init (sample_world ok_result) ''example.test/foo''
       = Some (''unknown url type: '' @ [CHR 39] @ ''example.test/foo'' @ [CHR 39])
   \<and> sent (handle_request open_config (sample_world ok_result)
              (sample_request [(''X-Target-URL'', ''example.test/foo'')])) =
         [Status 500, Header ''Server'' ''BaseHTTP/0.6 Python/3.11.4'',
          Header ''Date'' ''Mon, 01 Jan 2024 00:00:00 GMT'',
          Header ''Content-Type'' ''application/json'',
          Header ''Access-Control-Allow-Origin'' ''*'',
          Header ''Access-Control-Allow-Methods''
            ''GET, POST, PUT, DELETE, PATCH, OPTIONS, HEAD'',
          Header ''Access-Control-Allow-Headers'' ''*'',
          Header ''Access-Control-Allow-Credentials'' ''true'',
          Header ''Access-Control-Max-Age'' ''86400'',
          EndHeaders,
          Write (Json (JObject
            [(''error'', JString ''Proxy error''),
             (''message'',
              JString (''unknown url type: '' @ [CHR 39] @ ''example.test/foo'' @ [CHR 39]))]))]"
proof -
  let ?e = "''<urlopen error [Errno 111] Connection refused>''"
  let ?w = "sample_world (Raises ?e)"
  have co: "cors_origin open_config = OriginStr ''*''" by (simp add: open_config_def)
  have og: "get (headers plain_request) ''Origin'' = None" by code_simp
  have u: "urlopen ?w (build_request plain_request ''http://example.test/foo'' None)
        (ssl_context_of open_config) = Raises ?e"
    by (simp add: sample_hyps(9))
  have d: "request_init ?w ''http://example.test/foo'' = Some ?e \<or>
         (request_init ?w ''http://example.test/foo'' = None \<and>
          read_body ?w plain_request = Inr None \<and>
          urlopen ?w (build_request plain_request ''http://example.test/foo'' None)
            (ssl_context_of open_config) = Raises ?e)"
    using sample_hyps(5,6) u by blast
  note t = transport_failure [OF sample_hyps(1,2,3,4) d]
  from t have s1: "sent (handle_request open_config ?w plain_request) =
         [Status 500, Header ''Server'' ''BaseHTTP/0.6 Python/3.11.4'',
          Header ''Date'' ''Mon, 01 Jan 2024 00:00:00 GMT'',
          Header ''Content-Type'' ''application/json'',
          Header ''Access-Control-Allow-Origin'' ''*'',
          Header ''Access-Control-Allow-Methods''
            ''GET, POST, PUT, DELETE, PATCH, OPTIONS, HEAD'',
          Header ''Access-Control-Allow-Headers'' ''*'',
          Header ''Access-Control-Allow-Credentials'' ''true'',
          Header ''Access-Control-Max-Age'' ''86400'',
          EndHeaders,
          Write (Json (JObject
            [(''error'', JString ''Proxy error''), (''message'', JString ?e)]))]"
    by (simp add: co og sample_hyps(11,12) del: get.simps)
  from t have r1: "raised (handle_request open_config ?w plain_request) = None"
    by blast
  let ?rq = "sample_request [(''X-Target-URL'', ''example.test/foo'')]"
  let ?m = "''unknown url type: '' @ [CHR 39] @ ''example.test/foo'' @ [CHR 39]"
  let ?v = "sample_world ok_result"
  have m1: "path ?rq \<noteq> ''/health''" by code_simp
  have m2: "check_auth open_config (headers ?rq)" by code_simp
  have "get (headers ?rq) ''X-Target-URL'' = Some ''example.test/foo''" by code_simp
  then have m3: "target_url ?v ?rq = Inr (Some ''example.test/foo'')"
    by (simp add: target_url_def truthy_def)
  have m4: "''example.test/foo'' \<noteq> []" by simp
  have "\<not> splittype_matches (fst (splittag (unwrap ''example.test/foo'')))" by code_simp
  moreover have "request_url ''example.test/foo'' = ''example.test/foo''" by code_simp
  ultimately have m5: "request_init ?v ''example.test/foo'' = Some ?m"
    by (simp add: request_init_def sample_world_def)
  then have m6: "request_init ?v ''example.test/foo'' = Some ?m \<or>
         (request_init ?v ''example.test/foo'' = None \<and> read_body ?v ?rq = Inr None \<and>
          urlopen ?v (build_request ?rq ''example.test/foo'' None) (ssl_context_of open_config)
            = Raises ?m)"
    by blast
  have og2: "get (headers ?rq) ''Origin'' = None" by code_simp
  have vs: "version_string ?v = ''BaseHTTP/0.6 Python/3.11.4''"
    and ds: "date_time_string ?v = ''Mon, 01 Jan 2024 00:00:00 GMT''"
    by (simp_all add: sample_world_def)
  from transport_failure [OF m1 m2 m3 m4 m6]
  have s2: "sent (handle_request open_config ?v ?rq) =
         [Status 500, Header ''Server'' ''BaseHTTP/0.6 Python/3.11.4'',
          Header ''Date'' ''Mon, 01 Jan 2024 00:00:00 GMT'',
          Header ''Content-Type'' ''application/json'',
          Header ''Access-Control-Allow-Origin'' ''*'',
          Header ''Access-Control-Allow-Methods''
            ''GET, POST, PUT, DELETE, PATCH, OPTIONS, HEAD'',
          Header ''Access-Control-Allow-Headers'' ''*'',
          Header ''Access-Control-Allow-Credentials'' ''true'',
          Header ''Access-Control-Max-Age'' ''86400'',
          EndHeaders,
          Write (Json (JObject
            [(''error'', JString ''Proxy error''), (''message'', JString ?m)]))]"
    by (simp add: co og2 vs ds del: get.simps)
  from s1 r1 s2 m3 m5 show ?thesis
    using sample_hyps(1,2,3,5,6) u by blast
qed

text \<open>
  C2 asks for one status line and header block per request, also when a failure occurs
  partway through the body. The handler at such an input: the upstream answers 200, the
  first read gives six bytes and the second read raises. The exception reaches
  \<open>except Exception\<close> after the header block and a chunk are out, and a second status
  line and header block follow.
\<close>

theorem second_status_line:
  "sent (handle_request open_config (sample_world broken_result) plain_request) =
     [Status 200, Header ''Server'' ''BaseHTTP/0.6 Python/3.11.4'',
      Header ''Date'' ''Mon, 01 Jan 2024 00:00:00 GMT'',
      Header ''Content-Type'' ''text/plain'',
      Header ''Access-Control-Allow-Origin'' ''*'',
      Header ''Access-Control-Allow-Methods'' ''GET, POST, PUT, DELETE, PATCH, OPTIONS, HEAD'',
      Header ''Access-Control-Allow-Headers'' ''*'',
      Header ''Access-Control-Allow-Credentials'' ''true'',
      Header ''Access-Control-Max-Age'' ''86400'',
      EndHeaders,
      Write (Raw ''hello ''),
      Status 500, Header ''Server'' ''BaseHTTP/0.6 Python/3.11.4'',
      Header ''Date'' ''Mon, 01 Jan 2024 00:00:00 GMT'',
      Header ''Content-Type'' ''application/json'',
      Header ''Access-Control-Allow-Origin'' ''*'',
      Header ''Access-Control-Allow-Methods'' ''GET, POST, PUT, DELETE, PATCH, OPTIONS, HEAD'',
      Header ''Access-Control-Allow-Headers'' ''*'',
      Header ''Access-Control-Allow-Credentials'' ''true'',
      Header ''Access-Control-Max-Age'' ''86400'',
      EndHeaders,
      Write (Json (JObject
        [(''error'', JString ''Proxy error''),
         (''message'', JString ''IncompleteRead(6 bytes read, 5 more expected)'')]))]
   \<and> length (filter is_Status
        (sent (handle_request open_config (sample_world broken_result) plain_request))) = 2
   \<and> length (filter is_EndHeaders
        (sent (handle_request open_config (sample_world broken_result) plain_request))) = 2"
  by code_simp

text \<open>
  C8. For every request that \<open>handle_request\<close> serves with the path \<open>/health\<close>, the
  response is 200 with \<open>Content-Type: application/json\<close>, the CORS headers
  (\<open>Access-Control-Allow-Origin\<close> as the configuration and the request's \<open>Origin\<close>
  decide, then \<open>Allow-Methods\<close>, \<open>Allow-Headers\<close>, \<open>Allow-Credentials\<close> and
  \<open>Max-Age\<close>) and the JSON object of \<open>status\<close>, \<open>version\<close> and \<open>uptime\<close> (the
  clock minus \<open>start_time\<close>), and no outbound call; nothing is assumed of
  \<open>check_auth\<close>, which is not consulted.
\<close>

theorem health_check:
  assumes "path rq = ''/health''"
  shows "handle_request cfg w rq =
           \<lparr>sent =
              [Status 200, Header ''Server'' (version_string w),
               Header ''Date'' (date_time_string w),
               Header ''Content-Type'' ''application/json'']
              @ cors_headers cfg (headers rq)
              @ [EndHeaders,
                 Write (Json (JObject
                   [(''status'', JString ''ok''), (''version'', JString ''1.0.0''),
                    (''uptime'', JNumber (time_now w - start_time w))]))],
            calls = [], raised = None\<rparr>"
  using assms
  by (simp add: handle_request_def health_response_def send_response_def
        send_cors_headers_def Let_def split: cors_origin.splits)

theorem health_check_witness:
  "path health_request = ''/health''
   \<and> \<not> check_auth alice_config (headers health_request)
   \<and> handle_request alice_config (sample_world ok_result) health_request =
        \<lparr>sent =
           [Status 200, Header ''Server'' ''BaseHTTP/0.6 Python/3.11.4'',
            Header ''Date'' ''Mon, 01 Jan 2024 00:00:00 GMT'',
            Header ''Content-Type'' ''application/json'',
            Header ''Access-Control-Allow-Origin'' ''*'',
            Header ''Access-Control-Allow-Methods''
              ''GET, POST, PUT, DELETE, PATCH, OPTIONS, HEAD'',
            Header ''Access-Control-Allow-Headers'' ''*'',
            Header ''Access-Control-Allow-Credentials'' ''true'',
            Header ''Access-Control-Max-Age'' ''86400'',
            EndHeaders,
            Write (Json (JObject
              [(''status'', JString ''ok''), (''version'', JString ''1.0.0''),
               (''uptime'', JNumber 60)]))],
         calls = [], raised = None\<rparr>"
proof -
  have p: "path health_request = ''/health''" by (simp add: health_request_def)
  have a: "\<not> check_auth alice_config (headers health_request)" by code_simp
  have co: "cors_origin alice_config = OriginStr ''*''"
    by (simp add: alice_config_def open_config_def)
  have og: "get (headers health_request) ''Origin'' = None" by code_simp
  have tm: "time_now (sample_world ok_result) - start_time (sample_world ok_result) = 60"
    by (simp add: sample_world_def)
  from health_check [OF p, of alice_config "sample_world ok_result"]
  have "handle_request alice_config (sample_world ok_result) health_request =
        \<lparr>sent =
           [Status 200, Header ''Server'' ''BaseHTTP/0.6 Python/3.11.4'',
            Header ''Date'' ''Mon, 01 Jan 2024 00:00:00 GMT'',
            Header ''Content-Type'' ''application/json'',
            Header ''Access-Control-Allow-Origin'' ''*'',
            Header ''Access-Control-Allow-Methods''
              ''GET, POST, PUT, DELETE, PATCH, OPTIONS, HEAD'',
            Header ''Access-Control-Allow-Headers'' ''*'',
            Header ''Access-Control-Allow-Credentials'' ''true'',
            Header ''Access-Control-Max-Age'' ''86400'',
            EndHeaders,
            Write (Json (JObject
              [(''status'', JString ''ok''), (''version'', JString ''1.0.0''),
               (''uptime'', JNumber 60)]))],
         calls = [], raised = None\<rparr>"
    by (simp add: co og tm sample_hyps(11,12) del: get.simps)
  with p a show ?thesis by blast
qed

subsection \<open>Target resolution\<close>












end
